theory Spec2Isabelle
  imports Main
begin

section \<open>Strings\<close>

text \<open>
  The routes only use three string operations of JavaScript: \<open>trim\<close>, \<open>toLowerCase\<close> and
  \<open>toUpperCase\<close>. Strings are byte lists here, so the three are modelled on ASCII.
\<close>

definition isWhite :: "char \<Rightarrow> bool" where
  "isWhite c = (c = CHR '' '' \<or> c = CHR 0x09 \<or> c = CHR 0x0A \<or> c = CHR 0x0B
                \<or> c = CHR 0x0C \<or> c = CHR 0x0D)"

definition trim :: "string \<Rightarrow> string" where
  "trim s = rev (dropWhile isWhite (rev (dropWhile isWhite s)))"

definition lowerChar :: "char \<Rightarrow> char" where
  "lowerChar c = (let n = (of_char c :: nat) in if 65 \<le> n \<and> n \<le> 90 then char_of (n + 32) else c)"

definition upperChar :: "char \<Rightarrow> char" where
  "upperChar c = (let n = (of_char c :: nat) in if 97 \<le> n \<and> n \<le> 122 then char_of (n - 32) else c)"

definition toLowerCase :: "string \<Rightarrow> string" where
  "toLowerCase s = map lowerChar s"

definition toUpperCase :: "string \<Rightarrow> string" where
  "toUpperCase s = map upperChar s"

section \<open>The database (db.ts)\<close>

text \<open>
  One list of rows per table of the schema in \<open>createDb\<close>, in insertion order. Timestamps
  are ISO strings in the source, always produced by \<open>toISOString\<close>; they are kept here as
  the millisecond count that \<open>Date.parse\<close> gives back for them. The column
  \<open>awaiting_proof\<close> is an INTEGER holding 0 or 1, as in the schema.
\<close>

datatype TileKind = Empty | Task | Jump | Boss

record game_row =
  g_id :: string
  g_clan_name :: string
  g_host_password_hash :: string
  g_board_size :: int
  g_created_at :: int
  g_turn_team_index :: int
  g_status :: string
  g_discord_webhook_url :: "string option"
  g_board_url :: "string option"
  g_starts_at :: "int option"
  g_ends_at :: "int option"
  g_display_name :: "string option"
  g_join_code_hash :: "string option"

record team_row =
  t_id :: string
  t_game_id :: string
  t_team_index :: int
  t_name :: string
  t_color :: string
  t_password_hash :: string
  t_position :: int
  t_awaiting_proof :: int
  t_pending_tile :: "int option"

record reg_row =
  r_id :: string
  r_game_id :: string
  r_team_id :: string
  r_rsn :: string
  r_token_jti :: string
  r_created_at :: int

record tile_row =
  tt_id :: string
  tt_game_id :: string
  tt_tile_index :: int
  tt_kind :: TileKind
  tt_title :: "string option"
  tt_description :: "string option"
  tt_jump_to :: "int option"

record proof_row =
  p_id :: string
  p_game_id :: string
  p_team_id :: string
  p_tile_index :: int
  p_rsn :: string
  p_url :: string
  p_created_at :: int

record event_row =
  e_game_id :: string
  e_seq :: int
  e_type :: string
  e_payload_json :: string
  e_created_at :: int

text \<open>The board document of board.ts (\<open>BoardSchema\<close>), stored as JSON in \<open>game_boards\<close>.\<close>

record board_tile =
  bt_id :: int
  bt_type :: "string option"
  bt_title :: "string option"
  bt_description :: "string option"
  bt_image :: "string option"
  bt_category :: "string option"
  bt_requiresProof :: "bool option"
  bt_jumpTo :: "int option"

record board_doc =
  bd_schemaVersion :: "int option"
  bd_id :: "string option"
  bd_title :: "string option"
  bd_description :: "string option"
  bd_boardSize :: int
  bd_tilesBasePath :: "string option"
  bd_tiles :: "board_tile list"

record board_row =
  b_game_id :: string
  b_board_json :: board_doc
  b_locked :: int
  b_updated_at :: int

record db =
  games :: "game_row list"
  teams :: "team_row list"
  registrations :: "reg_row list"
  tile_tasks :: "tile_row list"
  proofs :: "proof_row list"
  events :: "event_row list"
  game_boards :: "board_row list"

definition init_db :: db where
  "init_db = \<lparr>games = [], teams = [], registrations = [], tile_tasks = [], proofs = [],
              events = [], game_boards = []\<rparr>"

text \<open>
  What a route can throw: a schema rejection of the request body, an \<open>Error\<close> with its
  message, or the constraint failure that \<open>db.run\<close> raises on a PRIMARY KEY or UNIQUE
  violation.
\<close>

datatype error = ZodError | Error string | SqliteConstraint

text \<open>INSERT, one per table, with the PRIMARY KEY and UNIQUE constraints of the schema.\<close>

definition insert_game :: "game_row \<Rightarrow> db \<Rightarrow> error + db" where
  "insert_game row d =
     (if \<exists>g \<in> set (games d). g_id g = g_id row then Inl SqliteConstraint
      else Inr (d\<lparr>games := games d @ [row]\<rparr>))"

definition insert_team :: "team_row \<Rightarrow> db \<Rightarrow> error + db" where
  "insert_team row d =
     (if \<exists>t \<in> set (teams d). t_id t = t_id row then Inl SqliteConstraint
      else Inr (d\<lparr>teams := teams d @ [row]\<rparr>))"

definition insert_registration :: "reg_row \<Rightarrow> db \<Rightarrow> error + db" where
  "insert_registration row d =
     (if \<exists>r \<in> set (registrations d).
           r_id r = r_id row \<or> (r_game_id r = r_game_id row \<and> r_rsn r = r_rsn row)
      then Inl SqliteConstraint
      else Inr (d\<lparr>registrations := registrations d @ [row]\<rparr>))"

definition insert_tile :: "tile_row \<Rightarrow> db \<Rightarrow> error + db" where
  "insert_tile row d =
     (if \<exists>r \<in> set (tile_tasks d).
           tt_id r = tt_id row
           \<or> (tt_game_id r = tt_game_id row \<and> tt_tile_index r = tt_tile_index row)
      then Inl SqliteConstraint
      else Inr (d\<lparr>tile_tasks := tile_tasks d @ [row]\<rparr>))"

definition insert_proof :: "proof_row \<Rightarrow> db \<Rightarrow> error + db" where
  "insert_proof row d =
     (if \<exists>p \<in> set (proofs d).
           p_id p = p_id row
           \<or> (p_game_id p = p_game_id row \<and> p_team_id p = p_team_id row
              \<and> p_tile_index p = p_tile_index row)
      then Inl SqliteConstraint
      else Inr (d\<lparr>proofs := proofs d @ [row]\<rparr>))"

text \<open>
  No route writes \<open>events\<close>; this is the INSERT that its schema allows, with the
  PRIMARY KEY \<open>(game_id, seq)\<close>.
\<close>

definition insert_event :: "event_row \<Rightarrow> db \<Rightarrow> error + db" where
  "insert_event row d =
     (if \<exists>e \<in> set (events d). e_game_id e = e_game_id row \<and> e_seq e = e_seq row
      then Inl SqliteConstraint
      else Inr (d\<lparr>events := events d @ [row]\<rparr>))"

section \<open>Tiles and their defaults\<close>

text \<open>The object that the tile readers of roll.ts, proof.ts and state.ts return.\<close>

record tile_info =
  kind :: TileKind
  jumpTo :: "int option"
  title :: "string option"

text \<open>overlay.ts also selects the description.\<close>

record tile_full = tile_info +
  description :: "string option"

definition tileRowOf :: "db \<Rightarrow> string \<Rightarrow> int \<Rightarrow> tile_row option" where
  "tileRowOf d gameId tileIndex =
     find (\<lambda>r. tt_game_id r = gameId \<and> tt_tile_index r = tileIndex) (tile_tasks d)"

definition getTileRaw :: "db \<Rightarrow> string \<Rightarrow> int \<Rightarrow> tile_info option" where
  "getTileRaw d gameId tileIndex =
     (case tileRowOf d gameId tileIndex of
        None \<Rightarrow> None
      | Some row \<Rightarrow> Some \<lparr>kind = tt_kind row, jumpTo = tt_jump_to row, title = tt_title row\<rparr>)"

text \<open>roll.ts\<close>

definition getTileWithDefaults :: "db \<Rightarrow> string \<Rightarrow> int \<Rightarrow> int \<Rightarrow> tile_info" where
  "getTileWithDefaults d gameId tileIndex boardSize =
     (case getTileRaw d gameId tileIndex of
        Some t \<Rightarrow> t
      | None \<Rightarrow>
          if tileIndex = 0 then \<lparr>kind = Empty, jumpTo = None, title = Some ''Start''\<rparr>
          else if tileIndex = boardSize then \<lparr>kind = Empty, jumpTo = None, title = Some ''Finish''\<rparr>
          else \<lparr>kind = Task, jumpTo = None, title = None\<rparr>)"

text \<open>proof.ts has its own copy of both readers.\<close>

definition getTileRaw_proof :: "db \<Rightarrow> string \<Rightarrow> int \<Rightarrow> tile_info option" where
  "getTileRaw_proof d gameId tileIndex =
     (case tileRowOf d gameId tileIndex of
        None \<Rightarrow> None
      | Some row \<Rightarrow> Some \<lparr>kind = tt_kind row, jumpTo = tt_jump_to row, title = tt_title row\<rparr>)"

definition getTileWithDefaults_proof :: "db \<Rightarrow> string \<Rightarrow> int \<Rightarrow> int \<Rightarrow> tile_info" where
  "getTileWithDefaults_proof d gameId tileIndex boardSize =
     (case getTileRaw_proof d gameId tileIndex of
        Some t \<Rightarrow> t
      | None \<Rightarrow>
          if tileIndex = 0 then \<lparr>kind = Empty, jumpTo = None, title = Some ''Start''\<rparr>
          else if tileIndex = boardSize then \<lparr>kind = Empty, jumpTo = None, title = Some ''Finish''\<rparr>
          else \<lparr>kind = Task, jumpTo = None, title = None\<rparr>)"

text \<open>state.ts\<close>

definition getTileInfo :: "db \<Rightarrow> string \<Rightarrow> int \<Rightarrow> int \<Rightarrow> tile_info" where
  "getTileInfo d gameId tileIndex boardSize =
     (case tileRowOf d gameId tileIndex of
        None \<Rightarrow>
          if tileIndex = 0 then \<lparr>kind = Empty, jumpTo = None, title = Some ''Start''\<rparr>
          else if tileIndex = boardSize then \<lparr>kind = Empty, jumpTo = None, title = Some ''Finish''\<rparr>
          else \<lparr>kind = Task, jumpTo = None, title = None\<rparr>
      | Some row \<Rightarrow> \<lparr>kind = tt_kind row, jumpTo = tt_jump_to row, title = tt_title row\<rparr>)"

text \<open>overlay.ts\<close>

definition getTileFull :: "db \<Rightarrow> string \<Rightarrow> int \<Rightarrow> int \<Rightarrow> tile_full" where
  "getTileFull d gameId tileIndex boardSize =
     (case tileRowOf d gameId tileIndex of
        None \<Rightarrow>
          if tileIndex = 0
          then \<lparr>kind = Empty, jumpTo = None, title = Some ''Start'', description = None\<rparr>
          else if tileIndex = boardSize
          then \<lparr>kind = Empty, jumpTo = None, title = Some ''Finish'', description = None\<rparr>
          else \<lparr>kind = Task, jumpTo = None, title = None, description = None\<rparr>
      | Some row \<Rightarrow>
          \<lparr>kind = tt_kind row, jumpTo = tt_jump_to row, title = tt_title row,
           description = tt_description row\<rparr>)"

section \<open>The pure helpers of model/gameModel.ts\<close>

text \<open>
  Positions, die values and jump targets are integers everywhere they are produced (the
  schemas ask for \<open>int()\<close>, the columns are INTEGER), so the \<open>Number.isInteger\<close> test of
  \<open>clampTile\<close> never fails and has no branch here.
\<close>

definition clampTile :: "int \<Rightarrow> int \<Rightarrow> int" where
  "clampTile n boardSize = (if n < 0 then 0 else if n > boardSize then boardSize else n)"

definition isProofTile :: "TileKind \<Rightarrow> bool" where
  "isProofTile k = (k = Task \<or> k = Boss)"

definition resolveRoll :: "int \<Rightarrow> int \<Rightarrow> int \<Rightarrow> tile_info \<Rightarrow> int \<times> (int \<times> int) option" where
  "resolveRoll boardSize from roll landingTile =
     (let to = clampTile (from + roll) boardSize in
      if kind landingTile = Jump then
        (case jumpTo landingTile of
           Some j \<Rightarrow> (let jt = clampTile j boardSize in (jt, Some (to, jt)))
         | None \<Rightarrow> (to, None))
      else (to, None))"

definition applyLanding :: "int \<Rightarrow> tile_info \<Rightarrow> bool \<times> int option" where
  "applyLanding to tile =
     (let needsProof = isProofTile (kind tile) in
      (needsProof, if needsProof then Some to else None))"

section \<open>Readers shared by the roll and proof routes\<close>

text \<open>
  Every route file has its own \<open>getGame\<close>, selecting some of the columns of the one row
  with the given id; the row itself stands for all of them.
\<close>

definition getGame :: "db \<Rightarrow> string \<Rightarrow> game_row option" where
  "getGame d gameId = find (\<lambda>g. g_id g = gameId) (games d)"

record team_view =
  tv_id :: string
  tv_name :: string
  tv_position :: int
  tv_awaitingProof :: bool
  tv_pendingTile :: "int option"

definition getTeamById :: "db \<Rightarrow> string \<Rightarrow> string \<Rightarrow> team_view option" where
  "getTeamById d gameId teamId =
     (case find (\<lambda>t. t_game_id t = gameId \<and> t_id t = teamId) (teams d) of
        None \<Rightarrow> None
      | Some row \<Rightarrow>
          Some \<lparr>tv_id = t_id row, tv_name = t_name row, tv_position = t_position row,
                tv_awaitingProof = (t_awaiting_proof row = 1),
                tv_pendingTile = t_pending_tile row\<rparr>)"

text \<open>The verified JWT payload (\<open>req.user\<close>).\<close>

record auth =
  a_gameId :: string
  a_teamId :: string
  a_rsn :: string
  a_jti :: string

definition sessionExists :: "db \<Rightarrow> string \<Rightarrow> auth \<Rightarrow> bool" where
  "sessionExists d gameId au =
     (find (\<lambda>r. r_game_id r = gameId \<and> r_team_id r = a_teamId au \<and> r_rsn r = a_rsn au
                 \<and> r_token_jti r = a_jti au) (registrations d) \<noteq> None)"

section \<open>POST /games/:gameId/roll (roll.ts)\<close>

text \<open>\<open>crypto.randomInt(1, 7)\<close> draws one of the six faces.\<close>

datatype die = D1 | D2 | D3 | D4 | D5 | D6

fun dieValue :: "die \<Rightarrow> int" where
  "dieValue D1 = 1"
| "dieValue D2 = 2"
| "dieValue D3 = 3"
| "dieValue D4 = 4"
| "dieValue D5 = 5"
| "dieValue D6 = 6"

record team_brief =
  tb_id :: string
  tb_name :: string
  tb_position :: int

definition briefOf :: "team_view \<Rightarrow> team_brief" where
  "briefOf team = \<lparr>tb_id = tv_id team, tb_name = tv_name team, tb_position = tv_position team\<rparr>"

record rolled =
  rl_roll :: int
  rl_from :: int
  rl_to :: int
  rl_jump :: "(int \<times> int) option"
  rl_awaitingProof :: bool
  rl_serverTime :: int
  rl_startsAt :: "int option"
  rl_endsAt :: "int option"

text \<open>
  One constructor for each \<open>return\<close> of the handler; the fields \<open>ok\<close>, \<open>rollAllowed\<close> and
  \<open>reason\<close>, which are literals in each of them, are the functions below. The handler has
  no \<open>throw\<close>.
\<close>

datatype roll_response =
    RollNotFound
  | RollInactive string
  | RollUnauthorized
  | RollTeamMissing
  | RollAwaitingProof "int option" team_brief
  | RollNotStarted team_brief int "int option" "int option" int
  | RollEnded team_brief int "int option" "int option" int
  | Rolled rolled

fun ok :: "roll_response \<Rightarrow> bool" where
  "ok RollNotFound = False"
| "ok (RollInactive s) = False"
| "ok RollUnauthorized = False"
| "ok RollTeamMissing = False"
| "ok (RollAwaitingProof p t) = True"
| "ok (RollNotStarted t n s e m) = True"
| "ok (RollEnded t n s e m) = True"
| "ok (Rolled r) = True"

fun rollAllowed :: "roll_response \<Rightarrow> bool" where
  "rollAllowed (Rolled r) = True"
| "rollAllowed _ = False"

fun reason :: "roll_response \<Rightarrow> string" where
  "reason RollNotFound = ''not_found''"
| "reason (RollInactive s) = ''inactive''"
| "reason RollUnauthorized = ''unauthorized''"
| "reason RollTeamMissing = ''team_missing''"
| "reason (RollAwaitingProof p t) = ''awaiting_proof''"
| "reason (RollNotStarted t n s e m) = ''not_started''"
| "reason (RollEnded t n s e m) = ''ended''"
| "reason (Rolled r) = ''rolled''"

text \<open>\<open>UPDATE teams SET position = ?, awaiting_proof = ?, pending_tile = ? WHERE id = ? AND game_id = ?\<close>\<close>

definition updateTeamRoll :: "int \<Rightarrow> bool \<Rightarrow> string \<Rightarrow> string \<Rightarrow> db \<Rightarrow> db" where
  "updateTeamRoll to needsProof teamId gameId d =
     d\<lparr>teams := map (\<lambda>t. if t_id t = teamId \<and> t_game_id t = gameId
                          then t\<lparr>t_position := to,
                                  t_awaiting_proof := (if needsProof then 1 else 0),
                                  t_pending_tile := (if needsProof then Some to else None)\<rparr>
                          else t) (teams d)\<rparr>"

text \<open>
  The movement of the handler, from reading the landing tile to the tile at the final
  position: the final position, the jump that was taken, and whether proof is needed.
\<close>

definition rollMove :: "db \<Rightarrow> string \<Rightarrow> int \<Rightarrow> int \<Rightarrow> int \<Rightarrow> int \<times> (int \<times> int) option \<times> bool" where
  "rollMove d gameId boardSize from roll =
     (let to0 = min boardSize (from + roll);
          landing = getTileWithDefaults d gameId to0 boardSize;
          (jump, to) =
            (if kind landing = Jump then
               (case jumpTo landing of
                  Some j \<Rightarrow> (let jt = min boardSize (max 0 j) in (Some (to0, jt), jt))
                | None \<Rightarrow> (None, to0))
             else (None, to0));
          dest = getTileWithDefaults d gameId to boardSize;
          needsProof = (kind dest = Task \<or> kind dest = Boss)
      in (to, jump, needsProof))"

text \<open>
  The time gating of the handler: the refusal "not_started" when the game has a start time
  that is still ahead (\<open>msUntil\<close> positive), else the refusal "ended" when it has an end
  time that is reached (\<open>msUntil\<close> zero or negative), else nothing.
\<close>

definition msUntil :: "int \<Rightarrow> int \<Rightarrow> int" where
  "msUntil t now = t - now"

definition rollTimeGate :: "game_row \<Rightarrow> team_view \<Rightarrow> int \<Rightarrow> roll_response option" where
  "rollTimeGate game team now =
     (case (case g_starts_at game of
              None \<Rightarrow> None
            | Some s \<Rightarrow>
                if msUntil s now > 0
                then Some (RollNotStarted (briefOf team) now (g_starts_at game) (g_ends_at game)
                             (msUntil s now))
                else None) of
        Some refusal \<Rightarrow> Some refusal
      | None \<Rightarrow>
         (case g_ends_at game of
            None \<Rightarrow> None
          | Some e \<Rightarrow>
              if msUntil e now \<le> 0
              then Some (RollEnded (briefOf team) now (g_starts_at game) (g_ends_at game)
                           (msUntil e now))
              else None))"

text \<open>
  \<open>now\<close> is the clock of the request and \<open>d6\<close> the face that \<open>crypto.randomInt\<close> draws.
  The webhook messages are sent after the update and are not part of the state.
\<close>

definition rollRoute :: "int \<Rightarrow> die \<Rightarrow> string \<Rightarrow> auth \<Rightarrow> db \<Rightarrow> roll_response \<times> db" where
  "rollRoute now d6 gameId au d =
     (case getGame d gameId of
        None \<Rightarrow> (RollNotFound, d)
      | Some game \<Rightarrow>
          if g_status game \<noteq> ''active'' then (RollInactive (g_status game), d)
          else if \<not> sessionExists d gameId au then (RollUnauthorized, d)
          else
            (case getTeamById d gameId (a_teamId au) of
               None \<Rightarrow> (RollTeamMissing, d)
             | Some team \<Rightarrow>
                 if tv_awaitingProof team
                 then (RollAwaitingProof (tv_pendingTile team) (briefOf team), d)
                 else
                   (case rollTimeGate game team now of
                      Some refusal \<Rightarrow> (refusal, d)
                    | None \<Rightarrow>
                       (let roll = dieValue d6;
                            from = tv_position team;
                            (to, jump, needsProof) = rollMove d gameId (g_board_size game) from roll
                        in (Rolled \<lparr>rl_roll = roll, rl_from = from, rl_to = to, rl_jump = jump,
                                     rl_awaitingProof = needsProof, rl_serverTime = now,
                                     rl_startsAt = g_starts_at game, rl_endsAt = g_ends_at game\<rparr>,
                            updateTeamRoll to needsProof (tv_id team) gameId d)))))"

section \<open>POST /games/:gameId/proof (proof.ts)\<close>

text \<open>
  \<open>ProofBody.parse\<close>. Each of \<open>url\<close> and \<open>imageUrl\<close> is optional and, when present, must
  pass \<open>z.string().url()\<close>; at least one of them must be present. The check of the
  validation library is the parameter \<open>isUrl\<close> of every route that parses a URL. The
  proof URL is \<open>url\<close> when present, else \<open>imageUrl\<close>.
\<close>

record proof_body =
  pb_url :: "string option"
  pb_imageUrl :: "string option"

definition parseProofBody :: "(string \<Rightarrow> bool) \<Rightarrow> proof_body \<Rightarrow> error + string" where
  "parseProofBody isUrl b =
     (if \<not> (case pb_url b of None \<Rightarrow> True | Some u \<Rightarrow> isUrl u) then Inl ZodError
      else if \<not> (case pb_imageUrl b of None \<Rightarrow> True | Some u \<Rightarrow> isUrl u) then Inl ZodError
      else
        (case pb_url b of
           Some u \<Rightarrow> Inr u
         | None \<Rightarrow> (case pb_imageUrl b of Some u \<Rightarrow> Inr u | None \<Rightarrow> Inl ZodError)))"

text \<open>\<open>UPDATE teams SET awaiting_proof = 0, pending_tile = NULL WHERE id = ? AND game_id = ?\<close>\<close>

definition clearTeamProof :: "string \<Rightarrow> string \<Rightarrow> db \<Rightarrow> db" where
  "clearTeamProof teamId gameId d =
     d\<lparr>teams := map (\<lambda>t. if t_id t = teamId \<and> t_game_id t = gameId
                          then t\<lparr>t_awaiting_proof := 0, t_pending_tile := None\<rparr>
                          else t) (teams d)\<rparr>"

text \<open>
  \<open>now\<close> is the clock (\<open>nowIso\<close>), \<open>proofId\<close> the identifier that \<open>rid\<close> draws. A thrown
  error is \<open>Inl\<close>; the database is returned in both cases, since a throw does not undo
  the statements that ran before it.
\<close>

definition proofRoute :: "(string \<Rightarrow> bool) \<Rightarrow> int \<Rightarrow> string \<Rightarrow> string \<Rightarrow> auth \<Rightarrow> proof_body \<Rightarrow> db \<Rightarrow> (error + unit) \<times> db" where
  "proofRoute isUrl now proofId gameId au body d =
     (case parseProofBody isUrl body of
        Inl e \<Rightarrow> (Inl e, d)
      | Inr proofUrl \<Rightarrow>
         (case getGame d gameId of
            None \<Rightarrow> (Inl (Error ''Game not found''), d)
          | Some game \<Rightarrow>
              if g_status game \<noteq> ''active'' then (Inl (Error ''Game inactive''), d)
              else if \<not> sessionExists d gameId au then (Inl (Error ''Unauthorized''), d)
              else
                (case getTeamById d gameId (a_teamId au) of
                   None \<Rightarrow> (Inl (Error ''No proof expected''), d)
                 | Some team \<Rightarrow>
                     if \<not> tv_awaitingProof team then (Inl (Error ''No proof expected''), d)
                     else
                       (case tv_pendingTile team of
                          None \<Rightarrow> (Inl (Error ''No proof expected''), d)
                        | Some tileIndex \<Rightarrow>
                            if kind (getTileWithDefaults_proof d gameId tileIndex (g_board_size game))
                                 \<noteq> Task
                            then (Inl (Error ''Pending tile is not a proof tile''), d)
                            else
                              (case insert_proof
                                      \<lparr>p_id = proofId, p_game_id = gameId, p_team_id = tv_id team,
                                       p_tile_index = tileIndex, p_rsn = a_rsn au,
                                       p_url = proofUrl, p_created_at = now\<rparr> d of
                                 Inl e \<Rightarrow> (Inl e, d)
                               | Inr d1 \<Rightarrow> (Inr (), clearTeamProof (tv_id team) gameId d1))))))"

section \<open>Games, teams and registrations (games.ts)\<close>

text \<open>
  \<open>sha256\<close> is a parameter \<open>H\<close> of every route that hashes, and the URL check of the
  validation library a parameter \<open>isUrl\<close> of every route that parses a URL. A date string
  of a request body is absent (or empty), unreadable, or readable as a millisecond count.
\<close>

datatype iso_input = IsoAbsent | IsoInvalid | IsoValid int

definition parseIsoOrThrow :: "string \<Rightarrow> iso_input \<Rightarrow> error + int option" where
  "parseIsoOrThrow label v =
     (case v of
        IsoAbsent \<Rightarrow> Inr None
      | IsoInvalid \<Rightarrow> Inl (Error (''Invalid '' @ label @ '' (must be ISO date string)''))
      | IsoValid t \<Rightarrow> Inr (Some t))"

definition parseKind :: "string \<Rightarrow> TileKind option" where
  "parseKind s =
     (if s = ''empty'' then Some Empty
      else if s = ''task'' then Some Task
      else if s = ''jump'' then Some Jump
      else if s = ''boss'' then Some Boss
      else None)"

record seed_tile =
  st_tileIndex :: int
  st_kind :: string
  st_title :: "string option"
  st_description :: "string option"
  st_jumpTo :: "int option"

record create_game_body =
  cg_clanName :: string
  cg_hostPassword :: string
  cg_boardSize :: int
  cg_displayName :: "string option"
  cg_boardUrl :: "string option"
  cg_startsAt :: iso_input
  cg_endsAt :: iso_input
  cg_tiles :: "seed_tile list option"

text \<open>\<open>CreateGameBody.parse\<close>: the checks of the schema.\<close>

definition seedTileOk :: "seed_tile \<Rightarrow> bool" where
  "seedTileOk t = (0 \<le> st_tileIndex t \<and> parseKind (st_kind t) \<noteq> None)"

definition createGameBodyOk :: "(string \<Rightarrow> bool) \<Rightarrow> create_game_body \<Rightarrow> bool" where
  "createGameBodyOk isUrl b =
     (1 \<le> length (cg_clanName b) \<and> 4 \<le> length (cg_hostPassword b)
      \<and> 10 \<le> cg_boardSize b \<and> cg_boardSize b \<le> 500
      \<and> (case cg_displayName b of None \<Rightarrow> True | Some n \<Rightarrow> 1 \<le> length n \<and> length n \<le> 80)
      \<and> (case cg_boardUrl b of None \<Rightarrow> True | Some u \<Rightarrow> isUrl u)
      \<and> (case cg_tiles b of None \<Rightarrow> True | Some ts \<Rightarrow> list_all seedTileOk ts))"

text \<open>
  The \<open>forEach\<close> over the seed tiles: a tile outside the board is skipped, every other one
  is inserted with the kind it came with. \<open>rid k\<close> is the identifier drawn for the tile
  at place \<open>k\<close>. An INSERT that fails throws, and the tiles before it stay inserted.
  The schema has already refused every kind that \<open>parseKind\<close> does not read.
\<close>

fun seedTiles :: "(nat \<Rightarrow> string) \<Rightarrow> nat \<Rightarrow> string \<Rightarrow> int \<Rightarrow> seed_tile list \<Rightarrow> db \<Rightarrow> error option \<times> db" where
  "seedTiles rid k gameId boardSize [] d = (None, d)"
| "seedTiles rid k gameId boardSize (tile # rest) d =
     (if st_tileIndex tile < 0 \<or> st_tileIndex tile > boardSize
      then seedTiles rid (Suc k) gameId boardSize rest d
      else
        (case parseKind (st_kind tile) of
           None \<Rightarrow> (Some ZodError, d)
         | Some knd \<Rightarrow>
            (case insert_tile \<lparr>tt_id = rid k, tt_game_id = gameId,
                                tt_tile_index = st_tileIndex tile, tt_kind = knd,
                                tt_title = st_title tile, tt_description = st_description tile,
                                tt_jump_to = st_jumpTo tile\<rparr> d of
               Inl e \<Rightarrow> (Some e, d)
             | Inr d1 \<Rightarrow> seedTiles rid (Suc k) gameId boardSize rest d1)))"

record created_game =
  cr_gameId :: string
  cr_joinCode :: string
  cr_clanName :: string
  cr_displayName :: string
  cr_startsAt :: "int option"
  cr_endsAt :: "int option"

text \<open>POST /games. \<open>gameId\<close>, \<open>joinCode\<close> and \<open>rid\<close> are the random draws, \<open>now\<close> the clock.\<close>

definition createGame :: "(string \<Rightarrow> string) \<Rightarrow> (string \<Rightarrow> bool) \<Rightarrow> int \<Rightarrow> string \<Rightarrow> string \<Rightarrow> (nat \<Rightarrow> string) \<Rightarrow> create_game_body \<Rightarrow> db \<Rightarrow> (error + created_game) \<times> db" where
  "createGame H isUrl now gameId joinCode rid body d =
     (if \<not> createGameBodyOk isUrl body then (Inl ZodError, d)
      else
        (let clanName = trim (cg_clanName body);
             displayName = (case cg_displayName body of
                              Some n \<Rightarrow> trim n
                            | None \<Rightarrow> clanName @ '' Game'')
         in case parseIsoOrThrow ''startsAt'' (cg_startsAt body) of
              Inl e \<Rightarrow> (Inl e, d)
            | Inr startsAtIso \<Rightarrow>
               (case parseIsoOrThrow ''endsAt'' (cg_endsAt body) of
                  Inl e \<Rightarrow> (Inl e, d)
                | Inr endsAtIso \<Rightarrow>
                   if (case (startsAtIso, endsAtIso) of
                         (Some s, Some e) \<Rightarrow> e \<le> s
                       | _ \<Rightarrow> False)
                   then (Inl (Error ''endsAt must be after startsAt''), d)
                   else
                     (case insert_game
                             \<lparr>g_id = gameId, g_clan_name = clanName,
                              g_host_password_hash = H (cg_hostPassword body),
                              g_board_size = cg_boardSize body, g_created_at = now,
                              g_turn_team_index = 0, g_status = ''active'',
                              g_discord_webhook_url = None, g_board_url = cg_boardUrl body,
                              g_starts_at = startsAtIso, g_ends_at = endsAtIso,
                              g_display_name = Some displayName,
                              g_join_code_hash = Some (H (toUpperCase joinCode))\<rparr> d of
                        Inl e \<Rightarrow> (Inl e, d)
                      | Inr d1 \<Rightarrow>
                         (case seedTiles rid 0 gameId (cg_boardSize body)
                                 (case cg_tiles body of None \<Rightarrow> [] | Some ts \<Rightarrow> ts) d1 of
                            (Some e, d2) \<Rightarrow> (Inl e, d2)
                          | (None, d2) \<Rightarrow>
                             (Inr \<lparr>cr_gameId = gameId, cr_joinCode = joinCode,
                                   cr_clanName = clanName, cr_displayName = displayName,
                                   cr_startsAt = startsAtIso, cr_endsAt = endsAtIso\<rparr>, d2))))))"

record create_team_body =
  ct_name :: string
  ct_color :: string
  ct_password :: string

definition createTeamBodyOk :: "create_team_body \<Rightarrow> bool" where
  "createTeamBodyOk b = (1 \<le> length (ct_name b) \<and> 1 \<le> length (ct_color b) \<and> 1 \<le> length (ct_password b))"

text \<open>\<open>SELECT COALESCE(MAX(team_index), -1) FROM teams WHERE game_id = ?\<close>, plus one.\<close>

definition nextTeamIndex :: "db \<Rightarrow> string \<Rightarrow> int" where
  "nextTeamIndex d gameId =
     (case map t_team_index (filter (\<lambda>t. t_game_id t = gameId) (teams d)) of
        [] \<Rightarrow> -1
      | x # xs \<Rightarrow> fold max xs x) + 1"

record created_team =
  ctd_id :: string
  ctd_index :: int
  ctd_name :: string
  ctd_color :: string

text \<open>POST /games/:id/teams. The new row starts at position 0, not awaiting proof, with no pending tile.\<close>

definition createTeam :: "(string \<Rightarrow> string) \<Rightarrow> string \<Rightarrow> string \<Rightarrow> create_team_body \<Rightarrow> db \<Rightarrow> (error + created_team) \<times> db" where
  "createTeam H teamId gameId body d =
     (if \<not> createTeamBodyOk body then (Inl ZodError, d)
      else
        (case getGame d gameId of
           None \<Rightarrow> (Inl (Error ''Game not found''), d)
         | Some game \<Rightarrow>
            (let name = trim (ct_name body); color = trim (ct_color body) in
             if find (\<lambda>t. t_game_id t = gameId \<and> t_name t = name) (teams d) \<noteq> None
             then (Inl (Error ''Team name already exists''), d)
             else
               (let teamIndex = nextTeamIndex d gameId in
                case insert_team
                        \<lparr>t_id = teamId, t_game_id = gameId, t_team_index = teamIndex,
                         t_name = name, t_color = color, t_password_hash = H (ct_password body),
                         t_position = 0, t_awaiting_proof = 0, t_pending_tile = None\<rparr> d of
                  Inl e \<Rightarrow> (Inl e, d)
                | Inr d1 \<Rightarrow>
                   (Inr \<lparr>ctd_id = teamId, ctd_index = teamIndex, ctd_name = name,
                         ctd_color = color\<rparr>, d1)))))"

record register_body =
  rb_rsn :: string
  rb_teamId :: "string option"
  rb_teamName :: "string option"
  rb_teamPassword :: string

definition registerBodyOk :: "register_body \<Rightarrow> bool" where
  "registerBodyOk b =
     (1 \<le> length (rb_rsn b) \<and> 1 \<le> length (rb_teamPassword b)
      \<and> (case rb_teamId b of None \<Rightarrow> True | Some i \<Rightarrow> 1 \<le> length i)
      \<and> (case rb_teamName b of None \<Rightarrow> True | Some n \<Rightarrow> 1 \<le> length n)
      \<and> (rb_teamId b \<noteq> None \<or> rb_teamName b \<noteq> None))"

definition getTeamById_games :: "db \<Rightarrow> string \<Rightarrow> string \<Rightarrow> team_row option" where
  "getTeamById_games d gameId teamId = find (\<lambda>t. t_game_id t = gameId \<and> t_id t = teamId) (teams d)"

definition getTeamByName :: "db \<Rightarrow> string \<Rightarrow> string \<Rightarrow> team_row option" where
  "getTeamByName d gameId name = find (\<lambda>t. t_game_id t = gameId \<and> t_name t = name) (teams d)"

text \<open>
  POST /games/:id/register. The token that is signed and returned is the payload
  \<open>{gameId, teamId, rsn, jti}\<close>.
\<close>

definition registerRoute :: "(string \<Rightarrow> string) \<Rightarrow> int \<Rightarrow> string \<Rightarrow> string \<Rightarrow> string \<Rightarrow> register_body \<Rightarrow> db \<Rightarrow> (error + auth) \<times> db" where
  "registerRoute H now jti regId gameId body d =
     (if \<not> registerBodyOk body then (Inl ZodError, d)
      else
        (case getGame d gameId of
           None \<Rightarrow> (Inl (Error ''Game not found''), d)
         | Some game \<Rightarrow>
            if g_status game \<noteq> ''active'' then (Inl (Error ''Game inactive''), d)
            else
              (case (case rb_teamId body of
                       Some i \<Rightarrow> getTeamById_games d gameId i
                     | None \<Rightarrow>
                        (case rb_teamName body of
                           Some n \<Rightarrow> getTeamByName d gameId (trim n)
                         | None \<Rightarrow> None)) of
                 None \<Rightarrow> (Inl (Error ''Invalid team credentials''), d)
               | Some team \<Rightarrow>
                  if t_password_hash team \<noteq> H (rb_teamPassword body)
                  then (Inl (Error ''Invalid team credentials''), d)
                  else if find (\<lambda>r. r_game_id r = gameId \<and> r_rsn r = rb_rsn body)
                            (registrations d) \<noteq> None
                  then (Inl (Error ''RSN already registered in this game''), d)
                  else
                    (case insert_registration
                            \<lparr>r_id = regId, r_game_id = gameId, r_team_id = t_id team,
                             r_rsn = rb_rsn body, r_token_jti = jti, r_created_at = now\<rparr> d of
                       Inl e \<Rightarrow> (Inl e, d)
                     | Inr d1 \<Rightarrow>
                        (Inr \<lparr>a_gameId = gameId, a_teamId = t_id team, a_rsn = rb_rsn body,
                              a_jti = jti\<rparr>, d1)))))"

section \<open>The board document (board.ts)\<close>

text \<open>
  \<open>mapBoardTileToDbKind\<close>: the mechanics of a tile of the editor. The category of the
  tile is not read.
\<close>

definition mapBoardTileToDbKind :: "board_tile \<Rightarrow> TileKind" where
  "mapBoardTileToDbKind t =
     (let type = toLowerCase (case bt_type t of None \<Rightarrow> ''empty'' | Some x \<Rightarrow> x) in
      if type = ''jump'' then Jump
      else if type = ''task'' \<or> type = ''boss'' then
        (if bt_requiresProof t = Some False then Empty else Task)
      else Empty)"

text \<open>
  \<open>BoardSchema.parse\<close>: the checks of the schema, and its two defaults (schema version 1,
  tile type "empty").
\<close>

definition boardTileOk :: "board_tile \<Rightarrow> bool" where
  "boardTileOk t =
     (0 \<le> bt_id t \<and> bt_id t \<le> 500
      \<and> (case bt_type t of
            None \<Rightarrow> True
          | Some x \<Rightarrow> x \<in> set [''start'', ''task'', ''jump'', ''finish'', ''empty'', ''boss''])
      \<and> (case bt_jumpTo t of None \<Rightarrow> True | Some j \<Rightarrow> 0 \<le> j \<and> j \<le> 500))"

definition boardDocOk :: "board_doc \<Rightarrow> bool" where
  "boardDocOk b =
     ((case bd_schemaVersion b of None \<Rightarrow> True | Some v \<Rightarrow> 1 \<le> v \<and> v \<le> 10)
      \<and> (case bd_id b of None \<Rightarrow> True | Some i \<Rightarrow> 1 \<le> length i)
      \<and> 1 \<le> bd_boardSize b \<and> bd_boardSize b \<le> 500
      \<and> (case bd_tilesBasePath b of None \<Rightarrow> True | Some x \<Rightarrow> 1 \<le> length x)
      \<and> list_all boardTileOk (bd_tiles b))"

definition parseBoard :: "board_doc \<Rightarrow> error + board_doc" where
  "parseBoard b =
     (if \<not> boardDocOk b then Inl ZodError
      else Inr (b\<lparr>bd_schemaVersion := Some (case bd_schemaVersion b of None \<Rightarrow> 1 | Some v \<Rightarrow> v),
                  bd_tiles := map (\<lambda>t. t\<lparr>bt_type := Some (case bt_type t of
                                                             None \<Rightarrow> ''empty''
                                                           | Some x \<Rightarrow> x)\<rparr>) (bd_tiles b)\<rparr>))"

text \<open>The replies that the board routes send with a status code.\<close>

datatype board_refusal =
    MissingHostPassword
  | GameNotFound
  | InvalidHostPassword
  | BoardIsLocked
  | BoardSizeMismatch int
  | TileIdOutOfRange int
  | JumpMissingJumpTo int
  | JumpToOutOfRange int

fun refusalCode :: "board_refusal \<Rightarrow> nat" where
  "refusalCode MissingHostPassword = 401"
| "refusalCode GameNotFound = 404"
| "refusalCode InvalidHostPassword = 403"
| "refusalCode BoardIsLocked = 409"
| "refusalCode (BoardSizeMismatch n) = 400"
| "refusalCode (TileIdOutOfRange n) = 400"
| "refusalCode (JumpMissingJumpTo n) = 400"
| "refusalCode (JumpToOutOfRange n) = 400"

datatype board_response = Refused board_refusal | Saved int | LockSet bool int

text \<open>The validation loop of the save: the first tile that fails decides the reply.\<close>

fun validateTiles :: "int \<Rightarrow> board_tile list \<Rightarrow> board_refusal option" where
  "validateTiles boardSize [] = None"
| "validateTiles boardSize (t # rest) =
     (if bt_id t < 0 \<or> bt_id t > boardSize then Some (TileIdOutOfRange (bt_id t))
      else if (case bt_type t of None \<Rightarrow> ''empty'' | Some x \<Rightarrow> x) = ''jump'' then
        (case bt_jumpTo t of
           None \<Rightarrow> Some (JumpMissingJumpTo (bt_id t))
         | Some j \<Rightarrow>
            if j < 0 \<or> j > boardSize then Some (JumpToOutOfRange j)
            else validateTiles boardSize rest)
      else validateTiles boardSize rest)"

text \<open>The loop that rebuilds \<open>tile_tasks\<close> from the tiles of the document.\<close>

fun insertBoardTiles :: "(nat \<Rightarrow> string) \<Rightarrow> nat \<Rightarrow> string \<Rightarrow> board_tile list \<Rightarrow> db \<Rightarrow> error option \<times> db" where
  "insertBoardTiles rid k gameId [] d = (None, d)"
| "insertBoardTiles rid k gameId (t # rest) d =
     (let knd = mapBoardTileToDbKind t;
          jt = (if knd = Jump then bt_jumpTo t else None)
      in case insert_tile \<lparr>tt_id = rid k, tt_game_id = gameId, tt_tile_index = bt_id t,
                            tt_kind = knd, tt_title = bt_title t,
                            tt_description = bt_description t, tt_jump_to = jt\<rparr> d of
           Inl e \<Rightarrow> (Some e, d)
         | Inr d1 \<Rightarrow> insertBoardTiles rid (Suc k) gameId rest d1)"

definition boardRowOf :: "db \<Rightarrow> string \<Rightarrow> board_row option" where
  "boardRowOf d gameId = find (\<lambda>b. b_game_id b = gameId) (game_boards d)"

text \<open>
  \<open>INSERT INTO game_boards ... ON CONFLICT(game_id) DO UPDATE SET board_json, updated_at\<close>:
  a new row is unlocked, an existing one keeps its flag.
\<close>

definition upsertBoard :: "string \<Rightarrow> board_doc \<Rightarrow> int \<Rightarrow> db \<Rightarrow> db" where
  "upsertBoard gameId doc updatedAt d =
     (if boardRowOf d gameId = None
      then d\<lparr>game_boards := game_boards d @
               [\<lparr>b_game_id = gameId, b_board_json = doc, b_locked = 0, b_updated_at = updatedAt\<rparr>]\<rparr>
      else d\<lparr>game_boards := map (\<lambda>b. if b_game_id b = gameId
                                       then b\<lparr>b_board_json := doc, b_updated_at := updatedAt\<rparr>
                                       else b) (game_boards d)\<rparr>)"

definition headerPassword :: "string option \<Rightarrow> string" where
  "headerPassword h = trim (case h of None \<Rightarrow> [] | Some x \<Rightarrow> x)"

text \<open>PUT /games/:id/board. \<open>hdr\<close> is the x-host-password header.\<close>

definition saveBoard :: "(string \<Rightarrow> string) \<Rightarrow> int \<Rightarrow> (nat \<Rightarrow> string) \<Rightarrow> string \<Rightarrow> string option \<Rightarrow> board_doc \<Rightarrow> db \<Rightarrow> (error + board_response) \<times> db" where
  "saveBoard H now rid gameId hdr body d =
     (let hostPassword = headerPassword hdr in
      if hostPassword = [] then (Inr (Refused MissingHostPassword), d)
      else
        (case getGame d gameId of
           None \<Rightarrow> (Inr (Refused GameNotFound), d)
         | Some game \<Rightarrow>
            if H hostPassword \<noteq> g_host_password_hash game
            then (Inr (Refused InvalidHostPassword), d)
            else if (case boardRowOf d gameId of None \<Rightarrow> False | Some b \<Rightarrow> b_locked b = 1)
            then (Inr (Refused BoardIsLocked), d)
            else
              (case parseBoard body of
                 Inl e \<Rightarrow> (Inl e, d)
               | Inr parsed \<Rightarrow>
                  if bd_boardSize parsed \<noteq> g_board_size game
                  then (Inr (Refused (BoardSizeMismatch (g_board_size game))), d)
                  else
                    (case validateTiles (g_board_size game) (bd_tiles parsed) of
                       Some r \<Rightarrow> (Inr (Refused r), d)
                     | None \<Rightarrow>
                        (let d1 = upsertBoard gameId parsed now d;
                             d2 = d1\<lparr>tile_tasks := filter (\<lambda>r. tt_game_id r \<noteq> gameId)
                                                         (tile_tasks d1)\<rparr>
                         in case insertBoardTiles rid 0 gameId (bd_tiles parsed) d2 of
                              (Some e, d3) \<Rightarrow> (Inl e, d3)
                            | (None, d3) \<Rightarrow> (Inr (Saved now), d3))))))"

definition minimalBoard :: "string \<Rightarrow> int \<Rightarrow> board_doc" where
  "minimalBoard gameId boardSize =
     \<lparr>bd_schemaVersion = Some 1, bd_id = Some gameId, bd_title = Some ''Snakes & Ladders'',
      bd_description = Some [], bd_boardSize = boardSize, bd_tilesBasePath = Some ''tiles'',
      bd_tiles =
        [\<lparr>bt_id = 0, bt_type = Some ''start'', bt_title = Some ''Start'', bt_description = None,
          bt_image = None, bt_category = None, bt_requiresProof = Some False, bt_jumpTo = None\<rparr>,
         \<lparr>bt_id = boardSize, bt_type = Some ''finish'', bt_title = Some ''Finish'',
          bt_description = None, bt_image = None, bt_category = None,
          bt_requiresProof = Some False, bt_jumpTo = None\<rparr>]\<rparr>"

text \<open>
  POST /games/:id/board/lock and /unlock differ in the flag only (\<open>flag\<close> is 1 or 0). With
  a row they update it; without one they insert the minimal document, and the ON CONFLICT
  clause of that INSERT has no row to meet.
\<close>

definition setBoardLock :: "(string \<Rightarrow> string) \<Rightarrow> int \<Rightarrow> int \<Rightarrow> string \<Rightarrow> string option \<Rightarrow> db \<Rightarrow> board_response \<times> db" where
  "setBoardLock H flag now gameId hdr d =
     (let hostPassword = headerPassword hdr in
      if hostPassword = [] then (Refused MissingHostPassword, d)
      else
        (case getGame d gameId of
           None \<Rightarrow> (Refused GameNotFound, d)
         | Some game \<Rightarrow>
            if H hostPassword \<noteq> g_host_password_hash game then (Refused InvalidHostPassword, d)
            else
              (case boardRowOf d gameId of
                 Some b \<Rightarrow>
                   (LockSet (flag = 1) now,
                    d\<lparr>game_boards := map (\<lambda>b. if b_game_id b = gameId
                                                then b\<lparr>b_locked := flag, b_updated_at := now\<rparr>
                                                else b) (game_boards d)\<rparr>)
               | None \<Rightarrow>
                   (LockSet (flag = 1) now,
                    d\<lparr>game_boards := game_boards d @
                         [\<lparr>b_game_id = gameId,
                           b_board_json = minimalBoard gameId (g_board_size game),
                           b_locked = flag, b_updated_at = now\<rparr>]\<rparr>))))"

definition lockBoard :: "(string \<Rightarrow> string) \<Rightarrow> int \<Rightarrow> string \<Rightarrow> string option \<Rightarrow> db \<Rightarrow> board_response \<times> db" where
  "lockBoard H now gameId hdr d = setBoardLock H 1 now gameId hdr d"

definition unlockBoard :: "(string \<Rightarrow> string) \<Rightarrow> int \<Rightarrow> string \<Rightarrow> string option \<Rightarrow> db \<Rightarrow> board_response \<times> db" where
  "unlockBoard H now gameId hdr d = setBoardLock H 0 now gameId hdr d"

section \<open>GET /games/:id/overlay (overlay.ts)\<close>

datatype phase = Prestart | Running | Ended

text \<open>\<open>phaseFrom\<close>, for a game that exists (the caller has returned before for a missing one).\<close>

definition phaseFrom :: "game_row \<Rightarrow> int \<Rightarrow> phase" where
  "phaseFrom game nowMs =
     (if toLowerCase (g_status game) = ''finished'' then Ended
      else if (case g_starts_at game of None \<Rightarrow> False | Some startMs \<Rightarrow> nowMs < startMs) then Prestart
      else if (case g_ends_at game of None \<Rightarrow> False | Some endMs \<Rightarrow> nowMs \<ge> endMs) then Ended
      else Running)"

text \<open>\<open>SELECT COALESCE(MAX(seq), 0) FROM events WHERE game_id = ?\<close>\<close>

definition maxSeqOf :: "db \<Rightarrow> string \<Rightarrow> int" where
  "maxSeqOf d gameId =
     (case map e_seq (filter (\<lambda>e. e_game_id e = gameId) (events d)) of
        [] \<Rightarrow> 0
      | x # xs \<Rightarrow> fold max xs x)"

record overlay_rev =
  maxSeq :: int
  updatedAt :: "int option"

definition getOverlayRevision :: "db \<Rightarrow> string \<Rightarrow> overlay_rev" where
  "getOverlayRevision d gameId =
     \<lparr>maxSeq = maxSeqOf d gameId,
      updatedAt = (case boardRowOf d gameId of None \<Rightarrow> None | Some b \<Rightarrow> Some (b_updated_at b))\<rparr>"

record overlay_team =
  ot_id :: string
  ot_index :: int
  ot_name :: string
  ot_color :: string
  ot_position :: int
  ot_awaitingProof :: bool
  ot_pendingTile :: "int option"

definition getTeamByRsn :: "db \<Rightarrow> string \<Rightarrow> string \<Rightarrow> overlay_team option" where
  "getTeamByRsn d gameId rsn =
     (case find (\<lambda>r. r_game_id r = gameId \<and> toLowerCase (r_rsn r) = toLowerCase rsn)
             (registrations d) of
        None \<Rightarrow> None
      | Some reg \<Rightarrow>
         if r_team_id reg = [] then None
         else
           (case find (\<lambda>t. t_game_id t = gameId \<and> t_id t = r_team_id reg) (teams d) of
              None \<Rightarrow> None
            | Some row \<Rightarrow>
               Some \<lparr>ot_id = t_id row, ot_index = t_team_index row, ot_name = t_name row,
                     ot_color = t_color row, ot_position = t_position row,
                     ot_awaitingProof = (t_awaiting_proof row = 1),
                     ot_pendingTile = t_pending_tile row\<rparr>))"

record overlay_tile =
  o_tileIndex :: int
  o_kind :: TileKind
  o_title :: string
  o_description :: string
  o_imageUrl :: string
  o_imageCacheKey :: string

record overlay_body =
  revision :: int
  ov_serverTime :: int
  ov_startTime :: "int option"
  ov_endTime :: "int option"
  ov_phase :: phase
  ov_team :: "(string \<times> int) option"
  ov_tile :: overlay_tile
  ov_awaitingProof :: bool
  ov_canRoll :: bool

text \<open>
  The validator sent with a reply: the text "missing", or the text made of the highest
  event number and the update time of the board.
\<close>

datatype etag = EtagMissing | EtagRev int "int option"

datatype overlay_response = NotModified | OverlayBody etag overlay_body

text \<open>
  \<open>rsn\<close> is the trimmed query parameter. \<open>inm\<close> is the If-None-Match header when it reads
  as a validator of a revision, \<open>None\<close> when it is absent or any other text.
  \<open>getBoardTileImages\<close> looks for the keys \<open>tileIndex\<close>, \<open>imageUrl\<close> and
  \<open>imageCacheKey\<close> in the stored document; no document that board.ts stores has them,
  so the two image fields of the reply are empty.
\<close>

definition overlayRoute :: "int \<Rightarrow> string \<Rightarrow> (int \<times> int option) option \<Rightarrow> string \<Rightarrow> db \<Rightarrow> overlay_response" where
  "overlayRoute now rsn inm gameId d =
     (case getGame d gameId of
        None \<Rightarrow>
          OverlayBody EtagMissing
            \<lparr>revision = 0, ov_serverTime = now, ov_startTime = None, ov_endTime = None,
             ov_phase = Ended, ov_team = None,
             ov_tile = \<lparr>o_tileIndex = 0, o_kind = Empty, o_title = ''Start'', o_description = [],
                        o_imageUrl = [], o_imageCacheKey = []\<rparr>,
             ov_awaitingProof = False, ov_canRoll = False\<rparr>
      | Some game \<Rightarrow>
         (let rev = getOverlayRevision d gameId in
          if inm = Some (maxSeq rev, updatedAt rev) then NotModified
          else
            (let ph = phaseFrom game now;
                 team = (if rsn \<noteq> [] then getTeamByRsn d gameId rsn else None);
                 activeIndex = (case team of
                                  None \<Rightarrow> 0
                                | Some tm \<Rightarrow> (case ot_pendingTile tm of
                                               Some p \<Rightarrow> p
                                             | None \<Rightarrow> ot_position tm));
                 t = getTileFull d gameId activeIndex (g_board_size game);
                 awaitingProof = (case team of None \<Rightarrow> False | Some tm \<Rightarrow> ot_awaitingProof tm);
                 canRoll = (case team of
                              None \<Rightarrow> False
                            | Some tm \<Rightarrow>
                                \<not> awaitingProof \<and> ph = Running
                                \<and> toLowerCase (g_status game) = ''active''
                                \<and> ot_index tm = g_turn_team_index game)
             in OverlayBody (EtagRev (maxSeq rev) (updatedAt rev))
                  \<lparr>revision = maxSeq rev, ov_serverTime = now,
                   ov_startTime = g_starts_at game, ov_endTime = g_ends_at game,
                   ov_phase = ph,
                   ov_team = (case team of
                                None \<Rightarrow> None
                              | Some tm \<Rightarrow> Some (ot_name tm, ot_position tm)),
                   ov_tile = \<lparr>o_tileIndex = activeIndex, o_kind = kind t,
                              o_title = (case title t of None \<Rightarrow> [] | Some x \<Rightarrow> x),
                              o_description = (case description t of None \<Rightarrow> [] | Some x \<Rightarrow> x),
                              o_imageUrl = [], o_imageCacheKey = []\<rparr>,
                   ov_awaitingProof = awaitingProof, ov_canRoll = canRoll\<rparr>)))"

section \<open>Histories of requests\<close>

text \<open>
  The requests that write the database, each with the values it draws from the clock and
  the random source. A served database is the empty one after a list of such requests;
  \<open>H\<close> is the hash and \<open>U\<close> the URL check that the server runs with.
\<close>

datatype request =
    CreateGame int string string "nat \<Rightarrow> string" create_game_body
  | CreateTeam string string create_team_body
  | Register int string string string register_body
  | Roll int die string auth
  | SubmitProof int string string auth proof_body
  | SaveBoard int "nat \<Rightarrow> string" string "string option" board_doc
  | LockBoard int string "string option"
  | UnlockBoard int string "string option"

fun step :: "(string \<Rightarrow> string) \<Rightarrow> (string \<Rightarrow> bool) \<Rightarrow> db \<Rightarrow> request \<Rightarrow> db" where
  "step H U d (CreateGame now gameId joinCode rid body) = snd (createGame H U now gameId joinCode rid body d)"
| "step H U d (CreateTeam teamId gameId body) = snd (createTeam H teamId gameId body d)"
| "step H U d (Register now jti regId gameId body) = snd (registerRoute H now jti regId gameId body d)"
| "step H U d (Roll now d6 gameId au) = snd (rollRoute now d6 gameId au d)"
| "step H U d (SubmitProof now proofId gameId au body) = snd (proofRoute U now proofId gameId au body d)"
| "step H U d (SaveBoard now rid gameId hdr body) = snd (saveBoard H now rid gameId hdr body d)"
| "step H U d (LockBoard now gameId hdr) = snd (lockBoard H now gameId hdr d)"
| "step H U d (UnlockBoard now gameId hdr) = snd (unlockBoard H now gameId hdr d)"

definition run :: "(string \<Rightarrow> string) \<Rightarrow> (string \<Rightarrow> bool) \<Rightarrow> request list \<Rightarrow> db" where
  "run H U reqs = foldl (step H U) init_db reqs"

section \<open>Properties of the stored state\<close>

text \<open>A tile index has an override when \<open>tile_tasks\<close> has a row for it.\<close>

definition hasOverride :: "db \<Rightarrow> string \<Rightarrow> int \<Rightarrow> bool" where
  "hasOverride d gameId tileIndex = (tileRowOf d gameId tileIndex \<noteq> None)"

text \<open>
  The pairing of the two gating columns of a team row: the flag is set exactly when a
  pending tile is stored, and a stored pending tile is the position.
\<close>

definition teamRowOk :: "team_row \<Rightarrow> bool" where
  "teamRowOk t =
     (((t_awaiting_proof t = 1) = (t_pending_tile t \<noteq> None))
      \<and> (\<forall>p. t_pending_tile t = Some p \<longrightarrow> p = t_position t))"

definition gameRowOk :: "game_row \<Rightarrow> bool" where
  "gameRowOk g = (10 \<le> g_board_size g \<and> g_board_size g \<le> 500 \<and> g_status g = ''active'')"

definition teamOk :: "db \<Rightarrow> team_row \<Rightarrow> bool" where
  "teamOk d t =
     (teamRowOk t \<and> 0 \<le> t_position t \<and> (\<exists>g \<in> set (games d). g_id g = t_game_id t))"

definition dbOk :: "db \<Rightarrow> bool" where
  "dbOk d = ((\<forall>g \<in> set (games d). gameRowOk g) \<and> (\<forall>t \<in> set (teams d). teamOk d t)
             \<and> events d = [])"

text \<open>
  The checks that the proof route makes before its INSERT, as one function: the error of
  the first one that fails, or the proof URL and the pending tile index. It is used to state
  facts about \<open>proofRoute\<close>, which is shown to be these checks followed by the INSERT and
  the UPDATE.
\<close>

definition proofCheck :: "(string \<Rightarrow> bool) \<Rightarrow> string \<Rightarrow> auth \<Rightarrow> proof_body \<Rightarrow> db \<Rightarrow> error + (string \<times> int)" where
  "proofCheck isUrl gameId au body d =
     (case parseProofBody isUrl body of
        Inl e \<Rightarrow> Inl e
      | Inr proofUrl \<Rightarrow>
         (case getGame d gameId of
            None \<Rightarrow> Inl (Error ''Game not found'')
          | Some game \<Rightarrow>
              if g_status game \<noteq> ''active'' then Inl (Error ''Game inactive'')
              else if \<not> sessionExists d gameId au then Inl (Error ''Unauthorized'')
              else
                (case getTeamById d gameId (a_teamId au) of
                   None \<Rightarrow> Inl (Error ''No proof expected'')
                 | Some team \<Rightarrow>
                     if \<not> tv_awaitingProof team then Inl (Error ''No proof expected'')
                     else
                       (case tv_pendingTile team of
                          None \<Rightarrow> Inl (Error ''No proof expected'')
                        | Some tileIndex \<Rightarrow>
                            if kind (getTileWithDefaults_proof d gameId tileIndex (g_board_size game))
                                 \<noteq> Task
                            then Inl (Error ''Pending tile is not a proof tile'')
                            else Inr (proofUrl, tileIndex)))))"

text \<open>The \<open>revision\<close> field of an overlay reply, when the reply has a body.\<close>

fun revisionOf :: "overlay_response \<Rightarrow> int option" where
  "revisionOf NotModified = None"
| "revisionOf (OverlayBody e b) = Some (revision b)"

text \<open>
  The revision as the specification words it: the larger of the number of recorded events
  of the game and the update time of its board (0 without a board).
\<close>

definition specRevision :: "db \<Rightarrow> string \<Rightarrow> int" where
  "specRevision d gameId =
     max (int (length (filter (\<lambda>e. e_game_id e = gameId) (events d))))
         (case boardRowOf d gameId of None \<Rightarrow> 0 | Some b \<Rightarrow> b_updated_at b)"

section \<open>A worked history\<close>

text \<open>
  One game of 20 tiles that ends at time 5000, seeded with three jumps (2 to 5, 5 to 9,
  4 to 1) and a tile of kind "boss" at 3; one team with one registered player.
\<close>

definition exRid :: "nat \<Rightarrow> string" where
  "exRid k = replicate (Suc k) (CHR ''x'')"

definition exGameBody :: create_game_body where
  "exGameBody =
     \<lparr>cg_clanName = ''clan'', cg_hostPassword = ''host'', cg_boardSize = 20,
      cg_displayName = None, cg_boardUrl = None, cg_startsAt = IsoAbsent,
      cg_endsAt = IsoValid 5000,
      cg_tiles = Some
        [\<lparr>st_tileIndex = 2, st_kind = ''jump'', st_title = None, st_description = None,
          st_jumpTo = Some 5\<rparr>,
         \<lparr>st_tileIndex = 5, st_kind = ''jump'', st_title = None, st_description = None,
          st_jumpTo = Some 9\<rparr>,
         \<lparr>st_tileIndex = 3, st_kind = ''boss'', st_title = None, st_description = None,
          st_jumpTo = None\<rparr>,
         \<lparr>st_tileIndex = 4, st_kind = ''jump'', st_title = None, st_description = None,
          st_jumpTo = Some 1\<rparr>]\<rparr>"

definition exAuth :: auth where
  "exAuth = \<lparr>a_gameId = ''g'', a_teamId = ''t'', a_rsn = ''bob'', a_jti = ''j''\<rparr>"

definition exSetup :: "request list" where
  "exSetup =
     [CreateGame 1000 ''g'' ''JOIN'' exRid exGameBody,
      CreateTeam ''t'' ''g'' \<lparr>ct_name = ''red'', ct_color = ''#f00'', ct_password = ''pw''\<rparr>,
      Register 1001 ''j'' ''r'' ''g''
        \<lparr>rb_rsn = ''bob'', rb_teamId = Some ''t'', rb_teamName = None, rb_teamPassword = ''pw''\<rparr>]"

text \<open>The database after \<open>exSetup\<close>, and the ones that differ from it in the team row and the proofs.\<close>

definition exTiles :: "tile_row list" where
  "exTiles =
     [\<lparr>tt_id = ''x'', tt_game_id = ''g'', tt_tile_index = 2, tt_kind = Jump, tt_title = None,
       tt_description = None, tt_jump_to = Some 5\<rparr>,
      \<lparr>tt_id = ''xx'', tt_game_id = ''g'', tt_tile_index = 5, tt_kind = Jump, tt_title = None,
       tt_description = None, tt_jump_to = Some 9\<rparr>,
      \<lparr>tt_id = ''xxx'', tt_game_id = ''g'', tt_tile_index = 3, tt_kind = Boss, tt_title = None,
       tt_description = None, tt_jump_to = None\<rparr>,
      \<lparr>tt_id = ''xxxx'', tt_game_id = ''g'', tt_tile_index = 4, tt_kind = Jump, tt_title = None,
       tt_description = None, tt_jump_to = Some 1\<rparr>]"

definition exGame :: game_row where
  "exGame =
     \<lparr>g_id = ''g'', g_clan_name = ''clan'', g_host_password_hash = ''host'', g_board_size = 20,
      g_created_at = 1000, g_turn_team_index = 0, g_status = ''active'',
      g_discord_webhook_url = None, g_board_url = None, g_starts_at = None,
      g_ends_at = Some 5000, g_display_name = Some ''clan Game'',
      g_join_code_hash = Some ''JOIN''\<rparr>"

definition exTeam :: "int \<Rightarrow> int \<Rightarrow> int option \<Rightarrow> team_row" where
  "exTeam pos aw pend =
     \<lparr>t_id = ''t'', t_game_id = ''g'', t_team_index = 0, t_name = ''red'', t_color = ''#f00'',
      t_password_hash = ''pw'', t_position = pos, t_awaiting_proof = aw, t_pending_tile = pend\<rparr>"

definition exDb :: "team_row \<Rightarrow> proof_row list \<Rightarrow> db" where
  "exDb team ps =
     \<lparr>games = [exGame], teams = [team],
      registrations = [\<lparr>r_id = ''r'', r_game_id = ''g'', r_team_id = ''t'', r_rsn = ''bob'',
                        r_token_jti = ''j'', r_created_at = 1001\<rparr>],
      tile_tasks = exTiles, proofs = ps, events = [], game_boards = []\<rparr>"

text \<open>
  The one URL that the history submits. \<open>exIsUrl\<close> accepts it and nothing else, so that
  on every string of the history it answers as the URL check does.
\<close>

definition exUrl :: string where
  "exUrl = ''https://example.com/proof.png''"

definition exIsUrl :: "string \<Rightarrow> bool" where
  "exIsUrl s = (s = exUrl)"

definition exProof :: "int \<Rightarrow> proof_row" where
  "exProof now =
     \<lparr>p_id = ''p'', p_game_id = ''g'', p_team_id = ''t'', p_tile_index = 1, p_rsn = ''bob'',
      p_url = exUrl, p_created_at = now\<rparr>"

definition exProofBody :: proof_body where
  "exProofBody = \<lparr>pb_url = Some exUrl, pb_imageUrl = None\<rparr>"

text \<open>A board document for the game with one tile of the legacy type, marked as needing no proof.\<close>

definition exBossDoc :: board_doc where
  "exBossDoc =
     \<lparr>bd_schemaVersion = None, bd_id = None, bd_title = None, bd_description = None,
      bd_boardSize = 20, bd_tilesBasePath = None,
      bd_tiles = [\<lparr>bt_id = 7, bt_type = Some ''boss'', bt_title = None, bt_description = None,
                   bt_image = None, bt_category = None, bt_requiresProof = Some False,
                   bt_jumpTo = None\<rparr>,
                  \<lparr>bt_id = 8, bt_type = Some ''boss'', bt_title = None, bt_description = None,
                   bt_image = None, bt_category = None, bt_requiresProof = None,
                   bt_jumpTo = None\<rparr>]\<rparr>"

section \<open>What each request leaves unchanged\<close>

lemma find_Some_set: "find P xs = Some x \<Longrightarrow> x \<in> set xs \<and> P x"
  by (induction xs) (auto split: if_splits)

lemma find_map_same:
  assumes "\<And>y. P (f y) = P y"
  shows "find P (map f xs) = map_option f (find P xs)"
  using assms by (induction xs) simp_all

lemma getGame_set: "getGame d g = Some game \<Longrightarrow> game \<in> set (games d) \<and> g_id game = g"
  by (auto simp: getGame_def dest: find_Some_set)

lemma getTeamById_row:
  "getTeamById d g tid = Some team \<Longrightarrow>
     \<exists>row \<in> set (teams d). t_game_id row = g \<and> t_id row = tid \<and> tv_id team = tid
        \<and> tv_position team = t_position row
        \<and> tv_awaitingProof team = (t_awaiting_proof row = 1)
        \<and> tv_pendingTile team = t_pending_tile row"
  by (auto simp: getTeamById_def split: option.splits dest!: find_Some_set)

lemma getTeamById_id: "getTeamById d g tid = Some team \<Longrightarrow> tv_id team = tid"
  by (auto simp: getTeamById_def split: option.splits dest!: find_Some_set)

lemma dieValue_range: "1 \<le> dieValue d6 \<and> dieValue d6 \<le> 6"
  by (cases d6) simp_all

lemma insert_tile_other:
  "insert_tile row d = Inr d1 \<Longrightarrow>
     games d1 = games d \<and> teams d1 = teams d \<and> events d1 = events d
     \<and> registrations d1 = registrations d \<and> proofs d1 = proofs d \<and> game_boards d1 = game_boards d"
  by (auto simp: insert_tile_def split: if_splits)

lemma seedTiles_other:
  "games (snd (seedTiles rid k gameId bs ts d)) = games d
   \<and> teams (snd (seedTiles rid k gameId bs ts d)) = teams d
   \<and> events (snd (seedTiles rid k gameId bs ts d)) = events d
   \<and> proofs (snd (seedTiles rid k gameId bs ts d)) = proofs d"
proof (induction ts arbitrary: k d)
  case Nil
  then show ?case by simp
next
  case (Cons t ts)
  show ?case
  proof (cases "st_tileIndex t < 0 \<or> st_tileIndex t > bs")
    case True
    with Cons.IH[of "Suc k" d] show ?thesis by simp
  next
    case out: False
    show ?thesis
    proof (cases "parseKind (st_kind t)")
      case None
      with out show ?thesis by simp
    next
      case (Some knd)
      let ?row = "\<lparr>tt_id = rid k, tt_game_id = gameId, tt_tile_index = st_tileIndex t,
                    tt_kind = knd, tt_title = st_title t, tt_description = st_description t,
                    tt_jump_to = st_jumpTo t\<rparr>"
      show ?thesis
      proof (cases "insert_tile ?row d")
        case (Inl e)
        with out Some show ?thesis by simp
      next
        case (Inr d2)
        from Cons.IH[of "Suc k" d2] insert_tile_other[OF Inr] out Some Inr show ?thesis
          by simp
      qed
    qed
  qed
qed

lemma insertBoardTiles_other:
  "games (snd (insertBoardTiles rid k gameId ts d)) = games d
   \<and> teams (snd (insertBoardTiles rid k gameId ts d)) = teams d
   \<and> events (snd (insertBoardTiles rid k gameId ts d)) = events d
   \<and> proofs (snd (insertBoardTiles rid k gameId ts d)) = proofs d
   \<and> game_boards (snd (insertBoardTiles rid k gameId ts d)) = game_boards d"
proof (induction ts arbitrary: k d)
  case Nil
  then show ?case by simp
next
  case (Cons t ts)
  let ?row = "\<lparr>tt_id = rid k, tt_game_id = gameId, tt_tile_index = bt_id t,
                tt_kind = mapBoardTileToDbKind t, tt_title = bt_title t,
                tt_description = bt_description t,
                tt_jump_to = (if mapBoardTileToDbKind t = Jump then bt_jumpTo t else None)\<rparr>"
  show ?case
  proof (cases "insert_tile ?row d")
    case (Inl e)
    then show ?thesis by (simp add: Let_def)
  next
    case (Inr d1)
    from insert_tile_other[OF Inr] Cons.IH[of "Suc k" d1] Inr show ?thesis
      by (simp add: Let_def)
  qed
qed

lemma createGame_frame:
  "teams (snd (createGame H U now gameId joinCode rid body d)) = teams d"
  "events (snd (createGame H U now gameId joinCode rid body d)) = events d"
  "proofs (snd (createGame H U now gameId joinCode rid body d)) = proofs d"
  "set (games (snd (createGame H U now gameId joinCode rid body d))) \<subseteq> set (games d) \<union> Collect gameRowOk"
  by (simp_all add: createGame_def Let_def insert_game_def createGameBodyOk_def gameRowOk_def
        split_beta seedTiles_other split: sum.split option.split)

lemma createGame_games_mono:
  "set (games d) \<subseteq> set (games (snd (createGame H U now gameId joinCode rid body d)))"
  by (simp add: createGame_def Let_def insert_game_def split_beta seedTiles_other
        subset_insertI split: sum.split option.split)

lemma createTeam_frame:
  "games (snd (createTeam H teamId gameId body d)) = games d"
  "events (snd (createTeam H teamId gameId body d)) = events d"
  "proofs (snd (createTeam H teamId gameId body d)) = proofs d"
  "set (teams (snd (createTeam H teamId gameId body d)))
     \<subseteq> set (teams d) \<union> {t. teamRowOk t \<and> t_position t = 0 \<and> getGame d (t_game_id t) \<noteq> None}"
  by (simp_all add: createTeam_def Let_def insert_team_def teamRowOk_def
        split: sum.split option.split)

lemma registerRoute_frame:
  "games (snd (registerRoute H now jti regId gameId body d)) = games d"
  "events (snd (registerRoute H now jti regId gameId body d)) = events d"
  "teams (snd (registerRoute H now jti regId gameId body d)) = teams d"
  "proofs (snd (registerRoute H now jti regId gameId body d)) = proofs d"
  by (simp_all add: registerRoute_def Let_def insert_registration_def
        split: sum.split option.split)

lemma saveBoard_frame:
  "games (snd (saveBoard H now rid gameId hdr body d)) = games d"
  "teams (snd (saveBoard H now rid gameId hdr body d)) = teams d"
  "events (snd (saveBoard H now rid gameId hdr body d)) = events d"
  "proofs (snd (saveBoard H now rid gameId hdr body d)) = proofs d"
  by (simp_all add: saveBoard_def Let_def split_beta insertBoardTiles_other upsertBoard_def
        split: option.split sum.split)

lemma setBoardLock_frame:
  "games (snd (setBoardLock H flag now gameId hdr d)) = games d"
  "teams (snd (setBoardLock H flag now gameId hdr d)) = teams d"
  "events (snd (setBoardLock H flag now gameId hdr d)) = events d"
  "proofs (snd (setBoardLock H flag now gameId hdr d)) = proofs d"
  by (simp_all add: setBoardLock_def Let_def split: option.split)

lemma updateTeamRoll_frame:
  "games (updateTeamRoll to np tid g d) = games d"
  "events (updateTeamRoll to np tid g d) = events d"
  "tile_tasks (updateTeamRoll to np tid g d) = tile_tasks d"
  "proofs (updateTeamRoll to np tid g d) = proofs d"
  "registrations (updateTeamRoll to np tid g d) = registrations d"
  "game_boards (updateTeamRoll to np tid g d) = game_boards d"
  by (simp_all add: updateTeamRoll_def)

lemma clearTeamProof_frame:
  "games (clearTeamProof tid g d) = games d"
  "events (clearTeamProof tid g d) = events d"
  "tile_tasks (clearTeamProof tid g d) = tile_tasks d"
  "proofs (clearTeamProof tid g d) = proofs d"
  by (simp_all add: clearTeamProof_def)

section \<open>The state that a history of requests can reach\<close>

lemma teamOk_games: "games d1 = games d \<Longrightarrow> teamOk d1 t = teamOk d t"
  by (simp add: teamOk_def)

lemma updateTeamRoll_teamsOk:
  "0 \<le> to \<Longrightarrow> \<forall>t \<in> set (teams d). teamOk d t \<Longrightarrow>
     \<forall>t \<in> set (teams (updateTeamRoll to np tid g d)). teamOk d t"
  by (auto simp: updateTeamRoll_def teamOk_def teamRowOk_def)

lemma clearTeamProof_teamsOk:
  "\<forall>t \<in> set (teams d). teamOk d t \<Longrightarrow>
     \<forall>t \<in> set (teams (clearTeamProof tid g d)). teamOk d t"
  by (auto simp: clearTeamProof_def teamOk_def teamRowOk_def)

lemma rollMove_nonneg:
  "0 \<le> bs \<Longrightarrow> 0 \<le> from \<Longrightarrow> 0 \<le> roll \<Longrightarrow> 0 \<le> fst (rollMove d g bs from roll)"
  by (simp add: rollMove_def Let_def split_beta split: option.split)

lemma rollRoute_cases:
  "snd (rollRoute now d6 gameId au d) = d
   \<or> (\<exists>game team. getGame d gameId = Some game \<and> getTeamById d gameId (a_teamId au) = Some team
        \<and> snd (rollRoute now d6 gameId au d) =
            updateTeamRoll (fst (rollMove d gameId (g_board_size game) (tv_position team) (dieValue d6)))
               (snd (snd (rollMove d gameId (g_board_size game) (tv_position team) (dieValue d6))))
               (tv_id team) gameId d)"
  by (simp add: rollRoute_def Let_def split_beta split: option.split)

lemma rollRoute_dbOk:
  assumes ok: "dbOk d"
  shows "dbOk (snd (rollRoute now d6 gameId au d))"
proof -
  from rollRoute_cases[of now d6 gameId au d] show ?thesis
  proof
    assume e: "snd (rollRoute now d6 gameId au d) = d"
    show ?thesis unfolding e by (rule ok)
  next
    assume "\<exists>game team. getGame d gameId = Some game \<and> getTeamById d gameId (a_teamId au) = Some team
        \<and> snd (rollRoute now d6 gameId au d) =
            updateTeamRoll (fst (rollMove d gameId (g_board_size game) (tv_position team) (dieValue d6)))
               (snd (snd (rollMove d gameId (g_board_size game) (tv_position team) (dieValue d6))))
               (tv_id team) gameId d"
    then obtain game team where g: "getGame d gameId = Some game"
      and t: "getTeamById d gameId (a_teamId au) = Some team"
      and r: "snd (rollRoute now d6 gameId au d) =
            updateTeamRoll (fst (rollMove d gameId (g_board_size game) (tv_position team) (dieValue d6)))
               (snd (snd (rollMove d gameId (g_board_size game) (tv_position team) (dieValue d6))))
               (tv_id team) gameId d" by blast
    from getGame_set[OF g] ok have bs: "0 \<le> g_board_size game"
      by (auto simp: dbOk_def gameRowOk_def)
    from getTeamById_row[OF t] ok have pos: "0 \<le> tv_position team"
      by (auto simp: dbOk_def teamOk_def)
    from dieValue_range[of d6] have "0 \<le> dieValue d6" by simp
    from rollMove_nonneg[OF bs pos this]
    have nn: "0 \<le> fst (rollMove d gameId (g_board_size game) (tv_position team) (dieValue d6))" .
    from ok have t1: "\<forall>t \<in> set (teams d). teamOk d t"
      by (simp add: dbOk_def)
    show ?thesis unfolding r dbOk_def updateTeamRoll_frame(1,2)
      using updateTeamRoll_teamsOk[OF nn t1] ok
      by (simp add: dbOk_def teamOk_games[OF updateTeamRoll_frame(1)])
  qed
qed

lemma proofRoute_cases:
  "snd (proofRoute U now proofId gameId au body d) = d
   \<or> (\<exists>row. snd (proofRoute U now proofId gameId au body d)
         = clearTeamProof (a_teamId au) gameId (d\<lparr>proofs := proofs d @ [row]\<rparr>))"
proof -
  let ?row = "\<lparr>p_id = proofId, p_game_id = gameId, p_team_id = a_teamId au,
      p_tile_index = the (tv_pendingTile (the (getTeamById d gameId (a_teamId au)))),
      p_rsn = a_rsn au, p_url = projr (parseProofBody U body), p_created_at = now\<rparr>"
  have "snd (proofRoute U now proofId gameId au body d) = d
        \<or> snd (proofRoute U now proofId gameId au body d)
            = clearTeamProof (a_teamId au) gameId (d\<lparr>proofs := proofs d @ [?row]\<rparr>)"
    by (auto simp: proofRoute_def insert_proof_def
          split: option.split sum.split dest: getTeamById_id)
  then show ?thesis by blast
qed

lemma proofRoute_dbOk:
  assumes ok: "dbOk d"
  shows "dbOk (snd (proofRoute U now proofId gameId au body d))"
proof -
  from proofRoute_cases[of U now proofId gameId au body d] show ?thesis
  proof
    assume e: "snd (proofRoute U now proofId gameId au body d) = d"
    show ?thesis unfolding e by (rule ok)
  next
    assume "\<exists>row. snd (proofRoute U now proofId gameId au body d)
         = clearTeamProof (a_teamId au) gameId (d\<lparr>proofs := proofs d @ [row]\<rparr>)"
    then obtain row where e: "snd (proofRoute U now proofId gameId au body d)
         = clearTeamProof (a_teamId au) gameId (d\<lparr>proofs := proofs d @ [row]\<rparr>)" by blast
    let ?d1 = "d\<lparr>proofs := proofs d @ [row]\<rparr>"
    have t1: "\<forall>t \<in> set (teams ?d1). teamOk ?d1 t"
      using ok by (simp add: dbOk_def teamOk_def)
    show ?thesis unfolding e dbOk_def clearTeamProof_frame
      using clearTeamProof_teamsOk[OF t1] ok
      by (simp add: dbOk_def teamOk_def clearTeamProof_frame)
  qed
qed

lemma createGame_dbOk:
  assumes ok: "dbOk d"
  shows "dbOk (snd (createGame H U now gameId joinCode rid body d))"
  using ok createGame_frame(4)[of H U now gameId joinCode rid body d]
    createGame_games_mono[of d H U now gameId joinCode rid body]
  unfolding dbOk_def teamOk_def createGame_frame(1,2) by blast

lemma createTeam_dbOk:
  assumes ok: "dbOk d"
  shows "dbOk (snd (createTeam H teamId gameId body d))"
proof -
  let ?d' = "snd (createTeam H teamId gameId body d)"
  have g: "games ?d' = games d" by (rule createTeam_frame(1))
  have t: "\<forall>t \<in> set (teams ?d'). teamOk d t"
  proof
    fix t
    assume "t \<in> set (teams ?d')"
    with createTeam_frame(4)[of H teamId gameId body d]
    have "t \<in> set (teams d)
          \<or> (teamRowOk t \<and> t_position t = 0 \<and> getGame d (t_game_id t) \<noteq> None)"
      by blast
    then show "teamOk d t"
    proof
      assume "t \<in> set (teams d)"
      with ok show ?thesis by (simp add: dbOk_def)
    next
      assume a: "teamRowOk t \<and> t_position t = 0 \<and> getGame d (t_game_id t) \<noteq> None"
      then obtain game where "getGame d (t_game_id t) = Some game" by blast
      from getGame_set[OF this] a show ?thesis by (auto simp: teamOk_def)
    qed
  qed
  show ?thesis unfolding dbOk_def createTeam_frame(1,2) teamOk_games[OF g]
    using ok t by (simp add: dbOk_def)
qed

lemma step_dbOk:
  assumes ok: "dbOk d"
  shows "dbOk (step H U d r)"
proof (cases r)
  case (CreateGame now gameId joinCode rid body)
  from createGame_dbOk[OF ok] show ?thesis unfolding CreateGame step.simps .
next
  case (CreateTeam teamId gameId body)
  from createTeam_dbOk[OF ok] show ?thesis unfolding CreateTeam step.simps .
next
  case (Register now jti regId gameId body)
  from ok show ?thesis
    unfolding Register step.simps dbOk_def teamOk_def registerRoute_frame by simp
next
  case (Roll now d6 gameId au)
  from rollRoute_dbOk[OF ok] show ?thesis unfolding Roll step.simps .
next
  case (SubmitProof now proofId gameId au body)
  from proofRoute_dbOk[OF ok] show ?thesis unfolding SubmitProof step.simps .
next
  case (SaveBoard now rid gameId hdr body)
  from ok show ?thesis
    unfolding SaveBoard step.simps dbOk_def teamOk_def saveBoard_frame by simp
next
  case (LockBoard now gameId hdr)
  from ok show ?thesis
    unfolding LockBoard step.simps dbOk_def teamOk_def lockBoard_def setBoardLock_frame by simp
next
  case (UnlockBoard now gameId hdr)
  from ok show ?thesis
    unfolding UnlockBoard step.simps dbOk_def teamOk_def unlockBoard_def setBoardLock_frame by simp
qed

lemma foldl_step_dbOk: "dbOk d \<Longrightarrow> dbOk (foldl (step H U) d reqs)"
  by (induction reqs arbitrary: d) (simp_all add: step_dbOk)

lemma run_dbOk: "dbOk (run H U reqs)"
  unfolding run_def by (rule foldl_step_dbOk) (simp add: dbOk_def init_db_def)

lemma run_exSetup: "run (\<lambda>s. s) exIsUrl exSetup = exDb (exTeam 0 0 None) []"
  by (simp add: run_def exSetup_def init_db_def createGame_def createGameBodyOk_def exGameBody_def
        seedTileOk_def parseKind_def parseIsoOrThrow_def insert_game_def insert_tile_def
        trim_def isWhite_def toUpperCase_def upperChar_def exRid_def
        createTeam_def createTeamBodyOk_def getGame_def nextTeamIndex_def insert_team_def
        registerRoute_def registerBodyOk_def getTeamById_games_def insert_registration_def
        exDb_def exTeam_def exGame_def exTiles_def Let_def)

lemma run_snoc: "run H U (reqs @ [r]) = step H U (run H U reqs) r"
  by (simp add: run_def)

lemma exDb_simps:
  "games (exDb team ps) = [exGame]"
  "teams (exDb team ps) = [team]"
  "tile_tasks (exDb team ps) = exTiles"
  "proofs (exDb team ps) = ps"
  "events (exDb team ps) = []"
  "game_boards (exDb team ps) = []"
  "getGame (exDb team ps) ''g'' = Some exGame"
  "sessionExists (exDb team ps) ''g'' exAuth"
  by (simp_all add: exDb_def getGame_def exGame_def sessionExists_def exAuth_def)

lemma exGame_simps:
  "g_id exGame = ''g''"
  "g_board_size exGame = 20"
  "g_status exGame = ''active''"
  "g_starts_at exGame = None"
  "g_ends_at exGame = Some 5000"
  by (simp_all add: exGame_def)

lemma exAuth_simps:
  "a_gameId exAuth = ''g''"
  "a_teamId exAuth = ''t''"
  "a_rsn exAuth = ''bob''"
  "a_jti exAuth = ''j''"
  by (simp_all add: exAuth_def)

lemma exTeam_view:
  "getTeamById (exDb (exTeam pos aw pend) ps) ''g'' ''t''
     = Some \<lparr>tv_id = ''t'', tv_name = ''red'', tv_position = pos, tv_awaitingProof = (aw = 1),
             tv_pendingTile = pend\<rparr>"
  by (simp add: getTeamById_def exDb_def exTeam_def)

lemma exTiles_rows:
  "tileRowOf (exDb team ps) ''g'' 0 = None"
  "tileRowOf (exDb team ps) ''g'' 1 = None"
  "tileRowOf (exDb team ps) ''g'' 20 = None"
  "tileRowOf (exDb team ps) ''g'' 2 = Some \<lparr>tt_id = ''x'', tt_game_id = ''g'', tt_tile_index = 2,
      tt_kind = Jump, tt_title = None, tt_description = None, tt_jump_to = Some 5\<rparr>"
  "tileRowOf (exDb team ps) ''g'' 3 = Some \<lparr>tt_id = ''xxx'', tt_game_id = ''g'', tt_tile_index = 3,
      tt_kind = Boss, tt_title = None, tt_description = None, tt_jump_to = None\<rparr>"
  "tileRowOf (exDb team ps) ''g'' 4 = Some \<lparr>tt_id = ''xxxx'', tt_game_id = ''g'', tt_tile_index = 4,
      tt_kind = Jump, tt_title = None, tt_description = None, tt_jump_to = Some 1\<rparr>"
  "tileRowOf (exDb team ps) ''g'' 5 = Some \<lparr>tt_id = ''xx'', tt_game_id = ''g'', tt_tile_index = 5,
      tt_kind = Jump, tt_title = None, tt_description = None, tt_jump_to = Some 9\<rparr>"
  by (simp_all add: tileRowOf_def exDb_def exTiles_def)

lemma exRoll:
  "rollRoute 1002 d6 ''g'' exAuth (exDb (exTeam pos 0 None) ps)
     = (let m = rollMove (exDb (exTeam pos 0 None) ps) ''g'' 20 pos (dieValue d6) in
        (Rolled \<lparr>rl_roll = dieValue d6, rl_from = pos, rl_to = fst m, rl_jump = fst (snd m),
                 rl_awaitingProof = snd (snd m), rl_serverTime = 1002, rl_startsAt = None,
                 rl_endsAt = Some 5000\<rparr>,
         exDb (exTeam (fst m) (if snd (snd m) then 1 else 0)
                 (if snd (snd m) then Some (fst m) else None)) ps))"
  by (simp add: rollRoute_def rollTimeGate_def msUntil_def getGame_def sessionExists_def
        getTeamById_def briefOf_def
        exGame_def exAuth_def Let_def split_beta updateTeamRoll_def exDb_def exTeam_def)

lemma exMove:
  "rollMove (exDb team ps) ''g'' 20 0 1 = (1, None, True)"
  "rollMove (exDb team ps) ''g'' 20 0 2 = (5, Some (2, 5), False)"
  "rollMove (exDb team ps) ''g'' 20 0 3 = (3, None, True)"
  "rollMove (exDb team ps) ''g'' 20 1 3 = (1, Some (4, 1), True)"
  by (simp_all add: rollMove_def getTileWithDefaults_def getTileRaw_def exTiles_rows Let_def)

lemma run_exRoll1:
  "run (\<lambda>s. s) exIsUrl (exSetup @ [Roll 1002 D1 ''g'' exAuth]) = exDb (exTeam 1 1 (Some 1)) []"
  by (simp add: run_snoc run_exSetup exRoll exMove)

section \<open>Properties of the routes\<close>

text \<open>
  C1. In a database that a history of requests has produced, for a game and a tile index
  with no row in \<open>tile_tasks\<close>, the four tile readers (roll, proof, state, overlay) return
  the same tile: kind \<open>empty\<close> titled "Start" at index 0, kind \<open>empty\<close> titled "Finish" at
  index \<open>boardSize\<close>, kind \<open>task\<close> with no title at every other index. The overlay reader
  has one more field, the description, which is absent.
\<close>

theorem default_tile_consistent:
  assumes game: "game \<in> set (games (run H U reqs))"
    and none: "\<not> hasOverride (run H U reqs) (g_id game) i"
  shows "getTileWithDefaults_proof (run H U reqs) (g_id game) i (g_board_size game)
           = getTileWithDefaults (run H U reqs) (g_id game) i (g_board_size game)
         \<and> getTileInfo (run H U reqs) (g_id game) i (g_board_size game)
           = getTileWithDefaults (run H U reqs) (g_id game) i (g_board_size game)
         \<and> tile_info.truncate (getTileFull (run H U reqs) (g_id game) i (g_board_size game))
           = getTileWithDefaults (run H U reqs) (g_id game) i (g_board_size game)
         \<and> description (getTileFull (run H U reqs) (g_id game) i (g_board_size game)) = None
         \<and> (i = 0 \<longrightarrow>
              kind (getTileWithDefaults (run H U reqs) (g_id game) i (g_board_size game)) = Empty
              \<and> title (getTileWithDefaults (run H U reqs) (g_id game) i (g_board_size game))
                  = Some ''Start'')
         \<and> (i = g_board_size game \<longrightarrow>
              kind (getTileWithDefaults (run H U reqs) (g_id game) i (g_board_size game)) = Empty
              \<and> title (getTileWithDefaults (run H U reqs) (g_id game) i (g_board_size game))
                  = Some ''Finish'')
         \<and> (i \<noteq> 0 \<and> i \<noteq> g_board_size game \<longrightarrow>
              kind (getTileWithDefaults (run H U reqs) (g_id game) i (g_board_size game)) = Task
              \<and> title (getTileWithDefaults (run H U reqs) (g_id game) i (g_board_size game))
                  = None)"
proof -
  from run_dbOk[of H U reqs] game have "10 \<le> g_board_size game"
    by (simp add: dbOk_def gameRowOk_def)
  then have nz: "g_board_size game \<noteq> 0" by simp
  from none have r: "tileRowOf (run H U reqs) (g_id game) i = None"
    by (simp add: hasOverride_def)
  let ?dflt = "if i = 0 then \<lparr>kind = Empty, jumpTo = None, title = Some ''Start''\<rparr>
               else if i = g_board_size game
               then \<lparr>kind = Empty, jumpTo = None, title = Some ''Finish''\<rparr>
               else \<lparr>kind = Task, jumpTo = None, title = None\<rparr>"
  have a: "getTileWithDefaults (run H U reqs) (g_id game) i (g_board_size game) = ?dflt"
    by (simp add: getTileWithDefaults_def getTileRaw_def r)
  have b: "getTileWithDefaults_proof (run H U reqs) (g_id game) i (g_board_size game) = ?dflt"
    by (simp add: getTileWithDefaults_proof_def getTileRaw_proof_def r)
  have c: "getTileInfo (run H U reqs) (g_id game) i (g_board_size game) = ?dflt"
    by (simp add: getTileInfo_def r)
  have d: "tile_info.truncate (getTileFull (run H U reqs) (g_id game) i (g_board_size game)) = ?dflt"
    by (simp add: getTileFull_def r tile_info.truncate_def)
  have e: "description (getTileFull (run H U reqs) (g_id game) i (g_board_size game)) = None"
    by (simp add: getTileFull_def r)
  from nz show ?thesis unfolding a b c d e by simp
qed

theorem default_tile_consistent_witness:
  "exGame \<in> set (games (run (\<lambda>s. s) exIsUrl exSetup))
   \<and> \<not> hasOverride (run (\<lambda>s. s) exIsUrl exSetup) ''g'' 1
   \<and> getTileWithDefaults_proof (run (\<lambda>s. s) exIsUrl exSetup) ''g'' 1 20
       = \<lparr>kind = Task, jumpTo = None, title = None\<rparr>
   \<and> getTileInfo (run (\<lambda>s. s) exIsUrl exSetup) ''g'' 1 20 = \<lparr>kind = Task, jumpTo = None, title = None\<rparr>
   \<and> getTileFull (run (\<lambda>s. s) exIsUrl exSetup) ''g'' 1 20
       = \<lparr>kind = Task, jumpTo = None, title = None, description = None\<rparr>
   \<and> getTileWithDefaults (run (\<lambda>s. s) exIsUrl exSetup) ''g'' 1 20
       = \<lparr>kind = Task, jumpTo = None, title = None\<rparr>"
proof -
  have g: "exGame \<in> set (games (run (\<lambda>s. s) exIsUrl exSetup))"
    by (simp add: run_exSetup exDb_simps)
  have n: "\<not> hasOverride (run (\<lambda>s. s) exIsUrl exSetup) (g_id exGame) 1"
    by (simp add: run_exSetup hasOverride_def exTiles_rows exGame_simps)
  from default_tile_consistent[OF g n] g n show ?thesis
    by (simp add: exGame_simps run_exSetup getTileWithDefaults_def getTileRaw_def
          getTileFull_def exTiles_rows)
qed

text \<open>
  C2. In every database that a history of requests produces, every team row has its
  gating columns paired: \<open>awaiting_proof\<close> is 1 exactly when \<open>pending_tile\<close> is not null,
  and a pending tile equals the position. The same holds of the team as the roll and
  proof routes read it.
\<close>

theorem gating_pair_invariant:
  "(\<forall>t \<in> set (teams (run H U reqs)).
      ((t_awaiting_proof t = 1) = (t_pending_tile t \<noteq> None))
      \<and> (\<forall>p. t_pending_tile t = Some p \<longrightarrow> p = t_position t))
   \<and> (\<forall>gameId teamId team. getTeamById (run H U reqs) gameId teamId = Some team \<longrightarrow>
        (tv_awaitingProof team = (tv_pendingTile team \<noteq> None))
        \<and> (\<forall>p. tv_pendingTile team = Some p \<longrightarrow> p = tv_position team))"
proof -
  have rows: "\<forall>t \<in> set (teams (run H U reqs)). teamRowOk t"
    using run_dbOk[of H U reqs] by (simp add: dbOk_def teamOk_def)
  have views: "(tv_awaitingProof team = (tv_pendingTile team \<noteq> None))
        \<and> (\<forall>p. tv_pendingTile team = Some p \<longrightarrow> p = tv_position team)"
    if "getTeamById (run H U reqs) gameId teamId = Some team" for gameId teamId team
  proof -
    from getTeamById_row[OF that] obtain row where "row \<in> set (teams (run H U reqs))"
      and "tv_position team = t_position row"
      and "tv_awaitingProof team = (t_awaiting_proof row = 1)"
      and "tv_pendingTile team = t_pending_tile row" by blast
    with rows show ?thesis by (auto simp: teamRowOk_def)
  qed
  from rows views show ?thesis by (simp add: teamRowOk_def)
qed

theorem gating_pair_invariant_witness:
  "exTeam 1 1 (Some 1) \<in> set (teams (run (\<lambda>s. s) exIsUrl (exSetup @ [Roll 1002 D1 ''g'' exAuth])))
   \<and> t_awaiting_proof (exTeam 1 1 (Some 1)) = 1
   \<and> t_pending_tile (exTeam 1 1 (Some 1)) = Some 1
   \<and> t_position (exTeam 1 1 (Some 1)) = 1
   \<and> getTeamById (run (\<lambda>s. s) exIsUrl (exSetup @ [Roll 1002 D1 ''g'' exAuth])) ''g'' ''t''
       = Some \<lparr>tv_id = ''t'', tv_name = ''red'', tv_position = 1, tv_awaitingProof = True,
               tv_pendingTile = Some 1\<rparr>"
proof -
  have m: "exTeam 1 1 (Some 1) \<in> set (teams (run (\<lambda>s. s) exIsUrl (exSetup @ [Roll 1002 D1 ''g'' exAuth])))"
    by (simp add: run_exRoll1 exDb_simps)
  have v: "getTeamById (run (\<lambda>s. s) exIsUrl (exSetup @ [Roll 1002 D1 ''g'' exAuth])) ''g'' ''t''
       = Some \<lparr>tv_id = ''t'', tv_name = ''red'', tv_position = 1, tv_awaitingProof = True,
               tv_pendingTile = Some 1\<rparr>"
    by (simp add: run_exRoll1 exTeam_view)
  from gating_pair_invariant[of "\<lambda>s. s" exIsUrl "exSetup @ [Roll 1002 D1 ''g'' exAuth]"] m v
  show ?thesis by (simp add: exTeam_def)
qed

text \<open>
  C10. For a game id with no row in \<open>games\<close>, the overlay route does not fail: its reply is
  the fixed placeholder, with revision 0, phase "ended", no team, the tile 0 of kind
  \<open>empty\<close> titled "Start", and both flags false.
\<close>

theorem overlay_missing_game:
  assumes "getGame d gameId = None"
  shows "overlayRoute now rsn inm gameId d
         = OverlayBody EtagMissing
             \<lparr>revision = 0, ov_serverTime = now, ov_startTime = None, ov_endTime = None,
              ov_phase = Ended, ov_team = None,
              ov_tile = \<lparr>o_tileIndex = 0, o_kind = Empty, o_title = ''Start'', o_description = [],
                         o_imageUrl = [], o_imageCacheKey = []\<rparr>,
              ov_awaitingProof = False, ov_canRoll = False\<rparr>"
  using assms by (simp add: overlayRoute_def)

theorem overlay_missing_game_witness:
  "getGame (run (\<lambda>s. s) exIsUrl exSetup) ''zz'' = None
   \<and> revisionOf (overlayRoute 3000 ''bob'' None ''zz'' (run (\<lambda>s. s) exIsUrl exSetup)) = Some 0
   \<and> overlayRoute 3000 ''bob'' None ''zz'' (run (\<lambda>s. s) exIsUrl exSetup)
       = OverlayBody EtagMissing
           \<lparr>revision = 0, ov_serverTime = 3000, ov_startTime = None, ov_endTime = None,
            ov_phase = Ended, ov_team = None,
            ov_tile = \<lparr>o_tileIndex = 0, o_kind = Empty, o_title = ''Start'', o_description = [],
                       o_imageUrl = [], o_imageCacheKey = []\<rparr>,
            ov_awaitingProof = False, ov_canRoll = False\<rparr>"
proof -
  have n: "getGame (run (\<lambda>s. s) exIsUrl exSetup) ''zz'' = None"
    by (simp add: run_exSetup getGame_def exDb_simps exGame_simps)
  from overlay_missing_game[OF n, of 3000 "''bob''" None] n show ?thesis by simp
qed

section \<open>Facts about the roll\<close>

lemma rollTimeGate_not_Rolled: "rollTimeGate game team now \<noteq> Some (Rolled r)"
  by (simp add: rollTimeGate_def split: option.split)

lemma rollRoute_Rolled:
  assumes "rollRoute now d6 gameId au d = (Rolled r, d')"
  shows "\<exists>game team. getGame d gameId = Some game
           \<and> getTeamById d gameId (a_teamId au) = Some team
           \<and> rl_roll r = dieValue d6 \<and> rl_from r = tv_position team
           \<and> rl_to r = fst (rollMove d gameId (g_board_size game) (tv_position team) (dieValue d6))
           \<and> rl_jump r = fst (snd (rollMove d gameId (g_board_size game) (tv_position team) (dieValue d6)))
           \<and> rl_awaitingProof r
               = snd (snd (rollMove d gameId (g_board_size game) (tv_position team) (dieValue d6)))
           \<and> d' = updateTeamRoll (rl_to r) (rl_awaitingProof r) (a_teamId au) gameId d"
proof (cases "getGame d gameId")
  case None
  with assms show ?thesis by (simp add: rollRoute_def)
next
  case g: (Some game)
  show ?thesis
  proof (cases "getTeamById d gameId (a_teamId au)")
    case None
    with assms g show ?thesis by (simp add: rollRoute_def split: if_splits)
  next
    case t: (Some team)
    from getTeamById_id[OF t] have i: "tv_id team = a_teamId au" .
    from assms g t i show ?thesis
      by (simp add: rollRoute_def Let_def split_beta rollTimeGate_not_Rolled
            split: if_splits option.splits)
         (use i in auto)
  qed
qed

lemma getTeamById_updateTeamRoll:
  assumes "getTeamById d g tid = Some team"
  shows "getTeamById (updateTeamRoll to np tid g d) g tid
         = Some (team\<lparr>tv_position := to, tv_awaitingProof := np,
                       tv_pendingTile := (if np then Some to else None)\<rparr>)"
proof -
  let ?P = "\<lambda>t. t_game_id t = g \<and> t_id t = tid"
  let ?f = "\<lambda>t. if t_id t = tid \<and> t_game_id t = g
                  then t\<lparr>t_position := to, t_awaiting_proof := (if np then 1 else 0),
                          t_pending_tile := (if np then Some to else None)\<rparr>
                  else t"
  have "find ?P (map ?f (teams d)) = map_option ?f (find ?P (teams d))"
    by (rule find_map_same) simp
  moreover from assms obtain row where "find ?P (teams d) = Some row"
    by (auto simp: getTeamById_def split: option.splits)
  moreover from this have "?P row" by (auto dest: find_Some_set)
  ultimately show ?thesis using assms
    by (auto simp: getTeamById_def updateTeamRoll_def)
qed

lemma getTileWithDefaults_updateTeamRoll:
  "getTileWithDefaults (updateTeamRoll to np tid g d) gameId i bs = getTileWithDefaults d gameId i bs"
  by (simp add: getTileWithDefaults_def getTileRaw_def tileRowOf_def updateTeamRoll_frame)

lemma rollMove_needsProof:
  "snd (snd (rollMove d g bs from roll))
     = (kind (getTileWithDefaults d g (fst (rollMove d g bs from roll)) bs) \<in> {Task, Boss})"
  by (simp add: rollMove_def Let_def split_beta)

lemma rollMove_jump:
  assumes "0 \<le> bs" "0 \<le> from + roll"
    and "kind (getTileWithDefaults d g (clampTile (from + roll) bs) bs) = Jump"
    and "jumpTo (getTileWithDefaults d g (clampTile (from + roll) bs) bs) = Some T"
  shows "fst (rollMove d g bs from roll) = clampTile T bs"
    and "fst (snd (rollMove d g bs from roll)) = Some (clampTile (from + roll) bs, clampTile T bs)"
proof -
  from assms(2) have c: "clampTile (from + roll) bs = min bs (from + roll)"
    by (simp add: clampTile_def)
  from assms(1) have t: "min bs (max 0 T) = clampTile T bs"
    by (simp add: clampTile_def)
  from assms(3,4) show "fst (rollMove d g bs from roll) = clampTile T bs"
    unfolding c by (simp add: rollMove_def Let_def t)
  from assms(3,4) show "fst (snd (rollMove d g bs from roll))
                         = Some (clampTile (from + roll) bs, clampTile T bs)"
    unfolding c by (simp add: rollMove_def Let_def t)
qed

lemma getGame_of_team:
  assumes ok: "dbOk d" and team: "getTeamById d g tid = Some team"
  shows "\<exists>game. getGame d g = Some game \<and> g_status game = ''active'' \<and> 10 \<le> g_board_size game"
proof -
  from getTeamById_row[OF team] obtain row where "row \<in> set (teams d)" "t_game_id row = g"
    by blast
  with ok obtain g0 where "g0 \<in> set (games d)" "g_id g0 = g"
    by (auto simp: dbOk_def teamOk_def)
  then have "getGame d g \<noteq> None" by (auto simp: getGame_def find_None_iff)
  then obtain game where g: "getGame d g = Some game" by blast
  from getGame_set[OF g] ok have "gameRowOk game" by (simp add: dbOk_def)
  with g show ?thesis by (simp add: gameRowOk_def)
qed

lemma team_position_nonneg:
  assumes ok: "dbOk d" and team: "getTeamById d g tid = Some team"
  shows "0 \<le> tv_position team"
  using getTeamById_row[OF team] ok by (auto simp: dbOk_def teamOk_def)

text \<open>
  C3 (amended). For every roll that is resolved, the team row read back afterwards stands
  at the final position of the reply, and its \<open>awaitingProof\<close> flag is true exactly when
  the tile at that position, read with the default rule of the roll route, has kind
  \<open>task\<close> or the legacy kind \<open>boss\<close>; the pending tile is that position when the flag
  is set and absent otherwise, as \<open>applyLanding\<close> of the model file computes.
\<close>

theorem roll_gating_follows_final_tile:
  assumes "rollRoute now d6 gameId au d = (Rolled r, d')"
  shows "\<exists>game team'.
           getGame d gameId = Some game
           \<and> getTeamById d' gameId (a_teamId au) = Some team'
           \<and> tv_position team' = rl_to r
           \<and> tv_awaitingProof team'
               = (kind (getTileWithDefaults d' gameId (rl_to r) (g_board_size game)) \<in> {Task, Boss})
           \<and> rl_awaitingProof r = tv_awaitingProof team'
           \<and> tv_pendingTile team' = (if tv_awaitingProof team' then Some (rl_to r) else None)
           \<and> applyLanding (rl_to r)
                 (getTileWithDefaults d' gameId (rl_to r) (g_board_size game))
               = (tv_awaitingProof team', tv_pendingTile team')"
proof -
  from rollRoute_Rolled[OF assms] obtain game team where
    g: "getGame d gameId = Some game"
    and t: "getTeamById d gameId (a_teamId au) = Some team"
    and to: "rl_to r = fst (rollMove d gameId (g_board_size game) (tv_position team) (dieValue d6))"
    and np: "rl_awaitingProof r
               = snd (snd (rollMove d gameId (g_board_size game) (tv_position team) (dieValue d6)))"
    and d': "d' = updateTeamRoll (rl_to r) (rl_awaitingProof r) (a_teamId au) gameId d"
    by blast
  let ?team' = "team\<lparr>tv_position := rl_to r, tv_awaitingProof := rl_awaitingProof r,
                       tv_pendingTile := (if rl_awaitingProof r then Some (rl_to r) else None)\<rparr>"
  have v: "getTeamById d' gameId (a_teamId au) = Some ?team'"
    unfolding d' by (rule getTeamById_updateTeamRoll[OF t])
  have k: "rl_awaitingProof r
             = (kind (getTileWithDefaults d' gameId (rl_to r) (g_board_size game)) \<in> {Task, Boss})"
    unfolding d' getTileWithDefaults_updateTeamRoll np to by (rule rollMove_needsProof)
  have l: "applyLanding (rl_to r) (getTileWithDefaults d' gameId (rl_to r) (g_board_size game))
             = (rl_awaitingProof r, if rl_awaitingProof r then Some (rl_to r) else None)"
    unfolding k by (simp add: applyLanding_def isProofTile_def Let_def)
  from g v k l show ?thesis by simp
qed

theorem roll_gating_follows_final_tile_witness:
  "rollRoute 1002 D1 ''g'' exAuth (run (\<lambda>s. s) exIsUrl exSetup)
     = (Rolled \<lparr>rl_roll = 1, rl_from = 0, rl_to = 1, rl_jump = None, rl_awaitingProof = True,
                rl_serverTime = 1002, rl_startsAt = None, rl_endsAt = Some 5000\<rparr>,
        exDb (exTeam 1 1 (Some 1)) [])
   \<and> (\<exists>game team'.
         getGame (run (\<lambda>s. s) exIsUrl exSetup) ''g'' = Some game
         \<and> getTeamById (exDb (exTeam 1 1 (Some 1)) []) ''g'' ''t'' = Some team'
         \<and> tv_position team' = 1
         \<and> tv_awaitingProof team'
             = (kind (getTileWithDefaults (exDb (exTeam 1 1 (Some 1)) []) ''g'' 1 (g_board_size game))
                  \<in> {Task, Boss})
         \<and> tv_awaitingProof team'
         \<and> tv_pendingTile team' = Some 1)"
proof -
  have r: "rollRoute 1002 D1 ''g'' exAuth (run (\<lambda>s. s) exIsUrl exSetup)
     = (Rolled \<lparr>rl_roll = 1, rl_from = 0, rl_to = 1, rl_jump = None, rl_awaitingProof = True,
                rl_serverTime = 1002, rl_startsAt = None, rl_endsAt = Some 5000\<rparr>,
        exDb (exTeam 1 1 (Some 1)) [])"
    by (simp add: run_exSetup exRoll exMove)
  from roll_gating_follows_final_tile[OF r] r show ?thesis
    by (auto simp: exAuth_simps)
qed

text \<open>
  C3 as stated fails on a seeded tile of kind "boss": the roll that lands on it sets
  \<open>awaitingProof\<close> although the tile does not resolve to kind \<open>task\<close>.
\<close>

theorem roll_gating_task_only_counterexample:
  "rollAllowed (fst (rollRoute 1002 D3 ''g'' exAuth (run (\<lambda>s. s) exIsUrl exSetup)))
   \<and> getTeamById (snd (rollRoute 1002 D3 ''g'' exAuth (run (\<lambda>s. s) exIsUrl exSetup))) ''g'' ''t''
       = Some \<lparr>tv_id = ''t'', tv_name = ''red'', tv_position = 3, tv_awaitingProof = True,
               tv_pendingTile = Some 3\<rparr>
   \<and> kind (getTileWithDefaults (snd (rollRoute 1002 D3 ''g'' exAuth (run (\<lambda>s. s) exIsUrl exSetup)))
             ''g'' 3 20) \<noteq> Task"
  by (simp add: run_exSetup exRoll exMove exTeam_view getTileWithDefaults_def getTileRaw_def
        exTiles_rows)

text \<open>
  C5. In a database that a history of requests has produced, a resolved roll whose landing
  tile, at \<open>clampTile (from + die)\<close>, has kind \<open>jump\<close> with a target \<open>T\<close> ends at
  \<open>clampTile T\<close>, in the reply and in the stored row, whatever the tile at \<open>T\<close> is; the
  jump recorded is the one from the landing tile, and \<open>resolveRoll\<close> of the model file
  gives the same answer.
\<close>

theorem single_step_jump:
  assumes roll: "rollRoute now d6 gameId au (run H U reqs) = (Rolled r, d')"
    and game: "getGame (run H U reqs) gameId = Some game"
    and team: "getTeamById (run H U reqs) gameId (a_teamId au) = Some team"
    and landing: "kind (getTileWithDefaults (run H U reqs) gameId
                          (clampTile (tv_position team + dieValue d6) (g_board_size game))
                          (g_board_size game)) = Jump"
    and target: "jumpTo (getTileWithDefaults (run H U reqs) gameId
                           (clampTile (tv_position team + dieValue d6) (g_board_size game))
                           (g_board_size game)) = Some T"
  shows "rl_to r = clampTile T (g_board_size game)
         \<and> rl_jump r = Some (clampTile (tv_position team + dieValue d6) (g_board_size game),
                              clampTile T (g_board_size game))
         \<and> (\<exists>team'. getTeamById d' gameId (a_teamId au) = Some team'
                \<and> tv_position team' = clampTile T (g_board_size game))
         \<and> resolveRoll (g_board_size game) (tv_position team) (dieValue d6)
               (getTileWithDefaults (run H U reqs) gameId
                  (clampTile (tv_position team + dieValue d6) (g_board_size game))
                  (g_board_size game))
             = (rl_to r, rl_jump r)"
proof -
  have ok: "dbOk (run H U reqs)" by (rule run_dbOk)
  from getGame_set[OF game] ok have bs: "0 \<le> g_board_size game"
    by (auto simp: dbOk_def gameRowOk_def)
  from team_position_nonneg[OF ok team] dieValue_range[of d6]
  have nn: "0 \<le> tv_position team + dieValue d6" by simp
  from rollRoute_Rolled[OF roll] game team have
    to: "rl_to r = fst (rollMove (run H U reqs) gameId (g_board_size game) (tv_position team) (dieValue d6))"
    and jp: "rl_jump r
               = fst (snd (rollMove (run H U reqs) gameId (g_board_size game) (tv_position team) (dieValue d6)))"
    and d': "d' = updateTeamRoll (rl_to r) (rl_awaitingProof r) (a_teamId au) gameId (run H U reqs)"
    by auto
  have a: "rl_to r = clampTile T (g_board_size game)"
    unfolding to by (rule rollMove_jump(1)[OF bs nn landing target])
  have b: "rl_jump r = Some (clampTile (tv_position team + dieValue d6) (g_board_size game),
                              clampTile T (g_board_size game))"
    unfolding jp by (rule rollMove_jump(2)[OF bs nn landing target])
  have c: "\<exists>team'. getTeamById d' gameId (a_teamId au) = Some team'
                \<and> tv_position team' = clampTile T (g_board_size game)"
    unfolding d' getTeamById_updateTeamRoll[OF team] a by simp
  have e: "resolveRoll (g_board_size game) (tv_position team) (dieValue d6)
               (getTileWithDefaults (run H U reqs) gameId
                  (clampTile (tv_position team + dieValue d6) (g_board_size game))
                  (g_board_size game))
             = (rl_to r, rl_jump r)"
    unfolding a b by (simp add: resolveRoll_def landing target Let_def)
  from a b c e show ?thesis by blast
qed

theorem single_step_jump_witness:
  "rollRoute 1002 D2 ''g'' exAuth (run (\<lambda>s. s) exIsUrl exSetup)
     = (Rolled \<lparr>rl_roll = 2, rl_from = 0, rl_to = 5, rl_jump = Some (2, 5),
                rl_awaitingProof = False, rl_serverTime = 1002, rl_startsAt = None,
                rl_endsAt = Some 5000\<rparr>,
        exDb (exTeam 5 0 None) [])
   \<and> getTileWithDefaults (run (\<lambda>s. s) exIsUrl exSetup) ''g'' (clampTile (0 + dieValue D2) 20) 20
       = \<lparr>kind = Jump, jumpTo = Some 5, title = None\<rparr>
   \<and> getTileWithDefaults (run (\<lambda>s. s) exIsUrl exSetup) ''g'' 5 20
       = \<lparr>kind = Jump, jumpTo = Some 9, title = None\<rparr>
   \<and> clampTile 5 20 = 5
   \<and> getTeamById (exDb (exTeam 5 0 None) []) ''g'' ''t''
       = Some \<lparr>tv_id = ''t'', tv_name = ''red'', tv_position = 5, tv_awaitingProof = False,
               tv_pendingTile = None\<rparr>"
proof -
  let ?team = "\<lparr>tv_id = ''t'', tv_name = ''red'', tv_position = 0, tv_awaitingProof = False,
               tv_pendingTile = None\<rparr>"
  have r: "rollRoute 1002 D2 ''g'' (exAuth) (run (\<lambda>s. s) exIsUrl exSetup)
     = (Rolled \<lparr>rl_roll = 2, rl_from = 0, rl_to = 5, rl_jump = Some (2, 5),
                rl_awaitingProof = False, rl_serverTime = 1002, rl_startsAt = None,
                rl_endsAt = Some 5000\<rparr>,
        exDb (exTeam 5 0 None) [])"
    by (simp add: run_exSetup exRoll exMove)
  have g: "getGame (run (\<lambda>s. s) exIsUrl exSetup) ''g'' = Some exGame"
    by (simp add: run_exSetup exDb_simps)
  have t: "getTeamById (run (\<lambda>s. s) exIsUrl exSetup) ''g'' (a_teamId exAuth) = Some ?team"
    by (simp add: run_exSetup exTeam_view exAuth_simps)
  have l: "getTileWithDefaults (run (\<lambda>s. s) exIsUrl exSetup) ''g''
             (clampTile (tv_position ?team + dieValue D2) (g_board_size exGame)) (g_board_size exGame)
           = \<lparr>kind = Jump, jumpTo = Some 5, title = None\<rparr>"
    by (simp add: run_exSetup exGame_simps clampTile_def getTileWithDefaults_def getTileRaw_def
          exTiles_rows)
  have k: "kind (getTileWithDefaults (run (\<lambda>s. s) exIsUrl exSetup) ''g''
             (clampTile (tv_position ?team + dieValue D2) (g_board_size exGame)) (g_board_size exGame))
           = Jump"
    unfolding l by simp
  have j: "jumpTo (getTileWithDefaults (run (\<lambda>s. s) exIsUrl exSetup) ''g''
             (clampTile (tv_position ?team + dieValue D2) (g_board_size exGame)) (g_board_size exGame))
           = Some 5"
    unfolding l by simp
  have n: "getTileWithDefaults (run (\<lambda>s. s) exIsUrl exSetup) ''g'' 5 20
             = \<lparr>kind = Jump, jumpTo = Some 9, title = None\<rparr>"
    by (simp add: run_exSetup getTileWithDefaults_def getTileRaw_def exTiles_rows)
  from single_step_jump[OF r g t k j] r l n show ?thesis
    by (simp add: exGame_simps clampTile_def exTeam_view)
qed

text \<open>
  C8. In a database that a history of requests has produced, a roll request for a team
  that is awaiting proof leaves the database as it is and is never allowed. When the
  caller holds a session of that team, the reply is the structured refusal with \<open>ok\<close>
  true, \<open>rollAllowed\<close> false and reason "awaiting_proof"; without a session the reply is
  the refusal "unauthorized". The handler has no other outcome for such a team.
\<close>

theorem roll_refused_while_awaiting:
  assumes team: "getTeamById (run H U reqs) gameId (a_teamId au) = Some team"
    and aw: "tv_awaitingProof team"
  shows "snd (rollRoute now d6 gameId au (run H U reqs)) = run H U reqs
         \<and> getTeamById (snd (rollRoute now d6 gameId au (run H U reqs))) gameId (a_teamId au)
             = Some team
         \<and> \<not> rollAllowed (fst (rollRoute now d6 gameId au (run H U reqs)))
         \<and> (sessionExists (run H U reqs) gameId au \<longrightarrow>
              fst (rollRoute now d6 gameId au (run H U reqs))
                = RollAwaitingProof (tv_pendingTile team) (briefOf team)
              \<and> ok (fst (rollRoute now d6 gameId au (run H U reqs)))
              \<and> reason (fst (rollRoute now d6 gameId au (run H U reqs))) = ''awaiting_proof'')
         \<and> (\<not> sessionExists (run H U reqs) gameId au \<longrightarrow>
              fst (rollRoute now d6 gameId au (run H U reqs)) = RollUnauthorized)"
proof -
  from getGame_of_team[OF run_dbOk team] obtain game where
    g: "getGame (run H U reqs) gameId = Some game" and a: "g_status game = ''active''" by blast
  have r: "rollRoute now d6 gameId au (run H U reqs)
           = (if sessionExists (run H U reqs) gameId au
              then RollAwaitingProof (tv_pendingTile team) (briefOf team)
              else RollUnauthorized, run H U reqs)"
    by (simp add: rollRoute_def g a team aw)
  show ?thesis unfolding r using team by simp
qed

theorem roll_refused_while_awaiting_witness:
  "getTeamById (run (\<lambda>s. s) exIsUrl (exSetup @ [Roll 1002 D1 ''g'' exAuth])) ''g'' (a_teamId exAuth)
     = Some \<lparr>tv_id = ''t'', tv_name = ''red'', tv_position = 1, tv_awaitingProof = True,
             tv_pendingTile = Some 1\<rparr>
   \<and> sessionExists (run (\<lambda>s. s) exIsUrl (exSetup @ [Roll 1002 D1 ''g'' exAuth])) ''g'' exAuth
   \<and> rollRoute 1003 D4 ''g'' exAuth (run (\<lambda>s. s) exIsUrl (exSetup @ [Roll 1002 D1 ''g'' exAuth]))
       = (RollAwaitingProof (Some 1) \<lparr>tb_id = ''t'', tb_name = ''red'', tb_position = 1\<rparr>,
          run (\<lambda>s. s) exIsUrl (exSetup @ [Roll 1002 D1 ''g'' exAuth]))
   \<and> reason (fst (rollRoute 1003 D4 ''g'' exAuth
                     (run (\<lambda>s. s) exIsUrl (exSetup @ [Roll 1002 D1 ''g'' exAuth])))) = ''awaiting_proof''"
proof -
  let ?team = "\<lparr>tv_id = ''t'', tv_name = ''red'', tv_position = 1, tv_awaitingProof = True,
             tv_pendingTile = Some 1\<rparr>"
  have t: "getTeamById (run (\<lambda>s. s) exIsUrl (exSetup @ [Roll 1002 D1 ''g'' exAuth])) ''g'' (a_teamId exAuth)
     = Some ?team"
    by (simp add: run_exRoll1 exTeam_view exAuth_simps)
  have a: "tv_awaitingProof ?team" by simp
  have s: "sessionExists (run (\<lambda>s. s) exIsUrl (exSetup @ [Roll 1002 D1 ''g'' exAuth])) ''g'' exAuth"
    by (simp add: run_exRoll1 exDb_simps)
  from roll_refused_while_awaiting[OF t a, of 1003 D4] t s show ?thesis
    by (simp add: briefOf_def prod_eq_iff)
qed

section \<open>Facts about the board save and the overlay revision\<close>

lemma mapBoardTileToDbKind_not_Boss: "mapBoardTileToDbKind t \<noteq> Boss"
  by (simp add: mapBoardTileToDbKind_def Let_def)

lemma mapBoardTileToDbKind_boss:
  "bt_type t = Some ''boss'' \<Longrightarrow>
     mapBoardTileToDbKind t = (if bt_requiresProof t = Some False then Empty else Task)"
  by (simp add: mapBoardTileToDbKind_def Let_def toLowerCase_def lowerChar_def)

lemma mapBoardTileToDbKind_parsed:
  "mapBoardTileToDbKind (t\<lparr>bt_type := Some (case bt_type t of None \<Rightarrow> ''empty'' | Some x \<Rightarrow> x)\<rparr>)
     = mapBoardTileToDbKind t"
  by (simp add: mapBoardTileToDbKind_def split: option.split)

lemma insertBoardTiles_rows:
  "insertBoardTiles rid k g ts d = (None, d') \<Longrightarrow>
     map (\<lambda>r. (tt_game_id r, tt_tile_index r, tt_kind r)) (tile_tasks d')
       = map (\<lambda>r. (tt_game_id r, tt_tile_index r, tt_kind r)) (tile_tasks d)
           @ map (\<lambda>t. (g, bt_id t, mapBoardTileToDbKind t)) ts"
proof (induction ts arbitrary: k d)
  case Nil
  then show ?case by simp
next
  case (Cons t ts)
  let ?row = "\<lparr>tt_id = rid k, tt_game_id = g, tt_tile_index = bt_id t,
                tt_kind = mapBoardTileToDbKind t, tt_title = bt_title t,
                tt_description = bt_description t,
                tt_jump_to = (if mapBoardTileToDbKind t = Jump then bt_jumpTo t else None)\<rparr>"
  show ?case
  proof (cases "insert_tile ?row d")
    case (Inl e)
    with Cons.prems show ?thesis by (simp add: Let_def)
  next
    case (Inr d1)
    with Cons.prems have "insertBoardTiles rid (Suc k) g ts d1 = (None, d')"
      by (simp add: Let_def)
    from Cons.IH[OF this] have
      "map (\<lambda>r. (tt_game_id r, tt_tile_index r, tt_kind r)) (tile_tasks d')
         = map (\<lambda>r. (tt_game_id r, tt_tile_index r, tt_kind r)) (tile_tasks d1)
             @ map (\<lambda>t. (g, bt_id t, mapBoardTileToDbKind t)) ts" .
    moreover from Inr have "tile_tasks d1 = tile_tasks d @ [?row]"
      by (auto simp: insert_tile_def split: if_splits)
    ultimately show ?thesis by simp
  qed
qed

lemma saveBoard_Saved:
  assumes "saveBoard H now rid g hdr body d = (Inr (Saved u), d')"
  shows "map (\<lambda>r. (tt_game_id r, tt_tile_index r, tt_kind r)) (tile_tasks d')
           = map (\<lambda>r. (tt_game_id r, tt_tile_index r, tt_kind r))
               (filter (\<lambda>r. tt_game_id r \<noteq> g) (tile_tasks d))
             @ map (\<lambda>t. (g, bt_id t, mapBoardTileToDbKind t)) (bd_tiles body)"
proof -
  let ?parsed = "body\<lparr>bd_schemaVersion := Some (case bd_schemaVersion body of None \<Rightarrow> 1 | Some v \<Rightarrow> v),
                  bd_tiles := map (\<lambda>t. t\<lparr>bt_type := Some (case bt_type t of
                                                             None \<Rightarrow> ''empty''
                                                           | Some x \<Rightarrow> x)\<rparr>) (bd_tiles body)\<rparr>"
  let ?d2 = "(upsertBoard g ?parsed now d)\<lparr>tile_tasks := filter (\<lambda>r. tt_game_id r \<noteq> g)
                                                         (tile_tasks (upsertBoard g ?parsed now d))\<rparr>"
  from assms have "insertBoardTiles rid 0 g (bd_tiles ?parsed) ?d2 = (None, d')"
    by (simp add: saveBoard_def parseBoard_def Let_def
          split: if_splits option.splits sum.splits prod.splits)
  from insertBoardTiles_rows[OF this] show ?thesis
    by (simp add: upsertBoard_def o_def mapBoardTileToDbKind_parsed)
qed

lemma listMax_eq:
  "xs \<noteq> [] \<Longrightarrow> (case xs of [] \<Rightarrow> (0::int) | x # r \<Rightarrow> fold max r x) = Max (set xs)"
  by (cases xs) (simp_all add: Max.set_eq_fold[symmetric])

lemma maxSeqOf_events: "events d1 = events d \<Longrightarrow> maxSeqOf d1 g = maxSeqOf d g"
  by (simp add: maxSeqOf_def)

lemma maxSeqOf_insert_event:
  assumes ins: "insert_event e d = Inr d1" and nn: "0 \<le> e_seq e"
  shows "maxSeqOf d g \<le> maxSeqOf d1 g"
proof -
  from ins have ev: "events d1 = events d @ [e]"
    by (auto simp: insert_event_def split: if_splits)
  let ?old = "map e_seq (filter (\<lambda>x. e_game_id x = g) (events d))"
  show ?thesis
  proof (cases "e_game_id e = g")
    case False
    then show ?thesis by (simp add: maxSeqOf_def ev)
  next
    case True
    then have new: "map e_seq (filter (\<lambda>x. e_game_id x = g) (events d1)) = ?old @ [e_seq e]"
      by (simp add: ev)
    show ?thesis
    proof (cases "?old = []")
      case True
      with nn show ?thesis unfolding maxSeqOf_def new by simp
    next
      case False
      have ne: "set ?old \<noteq> {}" unfolding set_empty by (rule False)
      have n2: "?old @ [e_seq e] \<noteq> []" by simp
      have m: "Max (set ?old) \<le> Max (set (?old @ [e_seq e]))"
        by (rule Max_mono[OF _ ne]) auto
      show ?thesis unfolding maxSeqOf_def new listMax_eq[OF False] listMax_eq[OF n2]
        by (rule m)
    qed
  qed
qed

lemma rollRoute_events: "events (snd (rollRoute now d6 gameId au d)) = events d"
  using rollRoute_cases[of now d6 gameId au d] by (auto simp: updateTeamRoll_frame)

lemma proofRoute_events: "events (snd (proofRoute U now proofId gameId au body d)) = events d"
  using proofRoute_cases[of U now proofId gameId au body d] by (auto simp: clearTeamProof_frame)

lemma step_events: "events (step H U d r) = events d"
  by (cases r)
    (simp_all add: createGame_frame createTeam_frame registerRoute_frame rollRoute_events
       proofRoute_events saveBoard_frame lockBoard_def unlockBoard_def setBoardLock_frame)

lemma exTiles_game: "r \<in> set exTiles \<Longrightarrow> tt_game_id r = ''g''"
  by (auto simp: exTiles_def)

lemma exSave:
  "saveBoard (\<lambda>s. s) 2000 exRid ''g'' (Some ''host'') exBossDoc (exDb team ps)
     = (Inr (Saved 2000),
        (exDb team ps)
          \<lparr>tile_tasks :=
             [\<lparr>tt_id = ''x'', tt_game_id = ''g'', tt_tile_index = 7, tt_kind = Empty,
               tt_title = None, tt_description = None, tt_jump_to = None\<rparr>,
              \<lparr>tt_id = ''xx'', tt_game_id = ''g'', tt_tile_index = 8, tt_kind = Task,
               tt_title = None, tt_description = None, tt_jump_to = None\<rparr>],
           game_boards :=
             [\<lparr>b_game_id = ''g'',
               b_board_json = exBossDoc\<lparr>bd_schemaVersion := Some 1\<rparr>,
               b_locked = 0, b_updated_at = 2000\<rparr>]\<rparr>)"
  by (simp add: saveBoard_def headerPassword_def trim_def isWhite_def getGame_def exDb_def
        exGame_def boardRowOf_def parseBoard_def boardDocOk_def boardTileOk_def exBossDoc_def
        upsertBoard_def exTiles_game insert_tile_def exRid_def mapBoardTileToDbKind_def
        toLowerCase_def lowerChar_def Let_def)

text \<open>
  The board save normalises the legacy type: no row that it stores for the game has kind
  \<open>boss\<close>, and each tile of the document with the type "boss" has a row of kind \<open>task\<close>
  (of kind \<open>empty\<close> when the tile says \<open>requiresProof = false\<close>).
\<close>

lemma board_save_normalizes_boss:
  assumes "saveBoard H now rid gameId hdr body d = (Inr (Saved u), d')"
  shows "(\<forall>row \<in> set (tile_tasks d'). tt_game_id row = gameId \<longrightarrow> tt_kind row \<noteq> Boss)
         \<and> (\<forall>t \<in> set (bd_tiles body). bt_type t = Some ''boss'' \<longrightarrow>
               (\<exists>row \<in> set (tile_tasks d').
                   tt_game_id row = gameId \<and> tt_tile_index row = bt_id t
                   \<and> tt_kind row = (if bt_requiresProof t = Some False then Empty else Task)))"
proof -
  let ?tr = "\<lambda>r. (tt_game_id r, tt_tile_index r, tt_kind r)"
  from saveBoard_Saved[OF assms]
  have "set (map ?tr (tile_tasks d'))
          = set (map ?tr (filter (\<lambda>r. tt_game_id r \<noteq> gameId) (tile_tasks d))
                 @ map (\<lambda>t. (gameId, bt_id t, mapBoardTileToDbKind t)) (bd_tiles body))"
    by simp
  then have rows: "?tr ` set (tile_tasks d')
          = ?tr ` {r \<in> set (tile_tasks d). tt_game_id r \<noteq> gameId}
            \<union> (\<lambda>t. (gameId, bt_id t, mapBoardTileToDbKind t)) ` set (bd_tiles body)"
    by simp
  have a: "tt_kind row \<noteq> Boss" if "row \<in> set (tile_tasks d')" "tt_game_id row = gameId" for row
  proof -
    from that(1) have "?tr row \<in> ?tr ` set (tile_tasks d')" by (rule imageI)
    with rows that(2) obtain t where "tt_kind row = mapBoardTileToDbKind t" by auto
    then show ?thesis by (simp add: mapBoardTileToDbKind_not_Boss)
  qed
  have b: "\<exists>row \<in> set (tile_tasks d').
              tt_game_id row = gameId \<and> tt_tile_index row = bt_id t
              \<and> tt_kind row = (if bt_requiresProof t = Some False then Empty else Task)"
    if "t \<in> set (bd_tiles body)" "bt_type t = Some ''boss''" for t
  proof -
    from that(1) rows have "(gameId, bt_id t, mapBoardTileToDbKind t) \<in> ?tr ` set (tile_tasks d')"
      by blast
    then obtain row where "row \<in> set (tile_tasks d')"
      and "(gameId, bt_id t, mapBoardTileToDbKind t) = ?tr row" by (rule imageE)
    with mapBoardTileToDbKind_boss[OF that(2)] show ?thesis by auto
  qed
  from a b show ?thesis by blast
qed

lemma exCreate:
  "createGame (\<lambda>s. s) exIsUrl 1000 ''g'' ''JOIN'' exRid exGameBody init_db
     = (Inr \<lparr>cr_gameId = ''g'', cr_joinCode = ''JOIN'', cr_clanName = ''clan'',
             cr_displayName = ''clan Game'', cr_startsAt = None, cr_endsAt = Some 5000\<rparr>,
        init_db\<lparr>games := [exGame], tile_tasks := exTiles\<rparr>)"
  by (simp add: init_db_def createGame_def createGameBodyOk_def exGameBody_def
        seedTileOk_def parseKind_def parseIsoOrThrow_def insert_game_def insert_tile_def
        trim_def isWhite_def toUpperCase_def upperChar_def exRid_def
        exGame_def exTiles_def Let_def)

text \<open>
  C4. Every path that takes a tile of kind "boss" should store it with kind \<open>task\<close>. The
  seeding of POST /games does not: it stores the kind as it came. For the body
  \<open>exGameBody\<close>, which the schema accepts and whose third seed tile is
  \<open>{tileIndex: 3, kind: "boss"}\<close>, the row stored for tile 3 has kind \<open>boss\<close>. The roll
  that lands on that tile gates the team, and the proof route then refuses the proof,
  since it only takes kind \<open>task\<close>.
\<close>

theorem seeding_stores_boss:
  "createGameBodyOk exIsUrl exGameBody
   \<and> map (\<lambda>t. (st_tileIndex t, st_kind t))
         (case cg_tiles exGameBody of None \<Rightarrow> [] | Some ts \<Rightarrow> ts)
       = [(2, ''jump''), (5, ''jump''), (3, ''boss''), (4, ''jump'')]
   \<and> map (\<lambda>r. (tt_tile_index r, tt_kind r))
         (tile_tasks (snd (createGame (\<lambda>s. s) exIsUrl 1000 ''g'' ''JOIN'' exRid exGameBody init_db)))
       = [(2, Jump), (5, Jump), (3, Boss), (4, Jump)]
   \<and> kind (getTileWithDefaults (run (\<lambda>s. s) exIsUrl exSetup) ''g'' 3 20) = Boss
   \<and> rollRoute 1002 D3 ''g'' exAuth (run (\<lambda>s. s) exIsUrl exSetup)
       = (Rolled \<lparr>rl_roll = 3, rl_from = 0, rl_to = 3, rl_jump = None, rl_awaitingProof = True,
                  rl_serverTime = 1002, rl_startsAt = None, rl_endsAt = Some 5000\<rparr>,
          exDb (exTeam 3 1 (Some 3)) [])
   \<and> proofRoute exIsUrl 1003 ''p'' ''g'' exAuth exProofBody (exDb (exTeam 3 1 (Some 3)) [])
       = (Inl (Error ''Pending tile is not a proof tile''), exDb (exTeam 3 1 (Some 3)) [])"
proof -
  have a: "createGameBodyOk exIsUrl exGameBody"
    by (simp add: createGameBodyOk_def exGameBody_def seedTileOk_def parseKind_def)
  have b: "map (\<lambda>t. (st_tileIndex t, st_kind t))
             (case cg_tiles exGameBody of None \<Rightarrow> [] | Some ts \<Rightarrow> ts)
           = [(2, ''jump''), (5, ''jump''), (3, ''boss''), (4, ''jump'')]"
    by (simp add: exGameBody_def)
  have c: "map (\<lambda>r. (tt_tile_index r, tt_kind r))
             (tile_tasks (snd (createGame (\<lambda>s. s) exIsUrl 1000 ''g'' ''JOIN'' exRid exGameBody init_db)))
           = [(2, Jump), (5, Jump), (3, Boss), (4, Jump)]"
    unfolding exCreate by (simp add: exTiles_def)
  have d: "kind (getTileWithDefaults (run (\<lambda>s. s) exIsUrl exSetup) ''g'' 3 20) = Boss"
    by (simp add: run_exSetup getTileWithDefaults_def getTileRaw_def exTiles_rows)
  have e: "rollRoute 1002 D3 ''g'' exAuth (run (\<lambda>s. s) exIsUrl exSetup)
       = (Rolled \<lparr>rl_roll = 3, rl_from = 0, rl_to = 3, rl_jump = None, rl_awaitingProof = True,
                  rl_serverTime = 1002, rl_startsAt = None, rl_endsAt = Some 5000\<rparr>,
          exDb (exTeam 3 1 (Some 3)) [])"
    by (simp add: run_exSetup exRoll exMove)
  have f: "proofRoute exIsUrl 1003 ''p'' ''g'' exAuth exProofBody (exDb (exTeam 3 1 (Some 3)) [])
       = (Inl (Error ''Pending tile is not a proof tile''), exDb (exTeam 3 1 (Some 3)) [])"
    by (simp add: proofRoute_def parseProofBody_def exProofBody_def exIsUrl_def
          exDb_simps exGame_simps exAuth_simps exTeam_view getTileWithDefaults_proof_def
          getTileRaw_proof_def exTiles_rows)
  from a b c d e f show ?thesis by (intro conjI)
qed

text \<open>
  C6 (amended). For an existing game, the \<open>revision\<close> of an overlay reply with a body is the
  highest event sequence number of the game (0 without events), and the update time of
  the board is no part of it. No request that writes the database changes that number, an
  event inserted with a sequence number that is not negative does not lower it, and two
  reads of the same database give the same revision.
\<close>

theorem overlay_revision_is_max_event_seq:
  assumes "getGame d gameId = Some game"
  shows "revisionOf (overlayRoute now rsn inm gameId d)
           = (if inm = Some (maxSeqOf d gameId, updatedAt (getOverlayRevision d gameId))
              then None else Some (maxSeqOf d gameId))
         \<and> maxSeqOf (step H U d r) gameId = maxSeqOf d gameId
         \<and> (\<forall>e d1. insert_event e d = Inr d1 \<and> 0 \<le> e_seq e
               \<longrightarrow> maxSeqOf d gameId \<le> maxSeqOf d1 gameId)
         \<and> (\<forall>now' rsn'. revisionOf (overlayRoute now' rsn' None gameId d)
                           = revisionOf (overlayRoute now rsn None gameId d))"
proof -
  have a: "revisionOf (overlayRoute n s i gameId d)
           = (if i = Some (maxSeqOf d gameId, updatedAt (getOverlayRevision d gameId))
              then None else Some (maxSeqOf d gameId))" for n s i
    by (simp add: overlayRoute_def assms Let_def getOverlayRevision_def)
  have b: "maxSeqOf (step H U d r) gameId = maxSeqOf d gameId"
    by (rule maxSeqOf_events) (rule step_events)
  have c: "\<forall>e d1. insert_event e d = Inr d1 \<and> 0 \<le> e_seq e
               \<longrightarrow> maxSeqOf d gameId \<le> maxSeqOf d1 gameId"
    using maxSeqOf_insert_event by blast
  from a b c show ?thesis by simp
qed

theorem overlay_revision_is_max_event_seq_witness:
  "getGame (run (\<lambda>s. s) exIsUrl exSetup) ''g'' = Some exGame
   \<and> revisionOf (overlayRoute 3000 ''bob'' None ''g'' (run (\<lambda>s. s) exIsUrl exSetup)) = Some 0
   \<and> insert_event \<lparr>e_game_id = ''g'', e_seq = 4, e_type = ''roll'', e_payload_json = ''{}'',
                    e_created_at = 3000\<rparr> (run (\<lambda>s. s) exIsUrl exSetup)
       = Inr ((run (\<lambda>s. s) exIsUrl exSetup)
                \<lparr>events := [\<lparr>e_game_id = ''g'', e_seq = 4, e_type = ''roll'',
                              e_payload_json = ''{}'', e_created_at = 3000\<rparr>]\<rparr>)
   \<and> maxSeqOf (run (\<lambda>s. s) exIsUrl exSetup) ''g'' = 0
   \<and> maxSeqOf ((run (\<lambda>s. s) exIsUrl exSetup)
                 \<lparr>events := [\<lparr>e_game_id = ''g'', e_seq = 4, e_type = ''roll'',
                               e_payload_json = ''{}'', e_created_at = 3000\<rparr>]\<rparr>) ''g'' = 4"
proof -
  have g: "getGame (run (\<lambda>s. s) exIsUrl exSetup) ''g'' = Some exGame"
    by (simp add: run_exSetup exDb_simps)
  have i: "insert_event \<lparr>e_game_id = ''g'', e_seq = 4, e_type = ''roll'', e_payload_json = ''{}'',
                    e_created_at = 3000\<rparr> (run (\<lambda>s. s) exIsUrl exSetup)
       = Inr ((run (\<lambda>s. s) exIsUrl exSetup)
                \<lparr>events := [\<lparr>e_game_id = ''g'', e_seq = 4, e_type = ''roll'',
                              e_payload_json = ''{}'', e_created_at = 3000\<rparr>]\<rparr>)"
    by (simp add: run_exSetup insert_event_def exDb_simps)
  have m: "maxSeqOf (run (\<lambda>s. s) exIsUrl exSetup) ''g'' = 0"
    by (simp add: run_exSetup maxSeqOf_def exDb_simps)
  from overlay_revision_is_max_event_seq[OF g, of 3000 "''bob''" None] g i m show ?thesis
    by (simp add: maxSeqOf_def)
qed

text \<open>
  C6 as stated fails once a board is saved: the revision stays 0 (no event is recorded),
  while the larger of the event count and the update time of the board is 2000.
\<close>

theorem revision_larger_of_counterexample:
  "getGame (run (\<lambda>s. s) exIsUrl (exSetup @ [SaveBoard 2000 exRid ''g'' (Some ''host'') exBossDoc])) ''g''
     = Some exGame
   \<and> revisionOf (overlayRoute 3000 ''bob'' None ''g''
        (run (\<lambda>s. s) exIsUrl (exSetup @ [SaveBoard 2000 exRid ''g'' (Some ''host'') exBossDoc])))
       = Some 0
   \<and> specRevision (run (\<lambda>s. s) exIsUrl (exSetup @ [SaveBoard 2000 exRid ''g'' (Some ''host'') exBossDoc]))
        ''g'' = 2000"
proof -
  have r: "run (\<lambda>s. s) exIsUrl (exSetup @ [SaveBoard 2000 exRid ''g'' (Some ''host'') exBossDoc])
             = (exDb (exTeam 0 0 None) [])
                  \<lparr>tile_tasks :=
                     [\<lparr>tt_id = ''x'', tt_game_id = ''g'', tt_tile_index = 7, tt_kind = Empty,
                       tt_title = None, tt_description = None, tt_jump_to = None\<rparr>,
                      \<lparr>tt_id = ''xx'', tt_game_id = ''g'', tt_tile_index = 8, tt_kind = Task,
                       tt_title = None, tt_description = None, tt_jump_to = None\<rparr>],
                   game_boards :=
                     [\<lparr>b_game_id = ''g'',
                       b_board_json = exBossDoc\<lparr>bd_schemaVersion := Some 1\<rparr>,
                       b_locked = 0, b_updated_at = 2000\<rparr>]\<rparr>"
    by (simp add: run_snoc run_exSetup exSave)
  show ?thesis unfolding r
    by (simp add: overlayRoute_def getGame_def exDb_def Let_def getOverlayRevision_def
          maxSeqOf_def specRevision_def boardRowOf_def exGame_simps)
qed

section \<open>Facts about the proof submission\<close>

lemma getTeamById_clearTeamProof:
  assumes "getTeamById d g tid = Some team"
  shows "getTeamById (clearTeamProof tid g d) g tid
         = Some (team\<lparr>tv_awaitingProof := False, tv_pendingTile := None\<rparr>)"
proof -
  let ?P = "\<lambda>t. t_game_id t = g \<and> t_id t = tid"
  let ?f = "\<lambda>t. if t_id t = tid \<and> t_game_id t = g
                  then t\<lparr>t_awaiting_proof := 0, t_pending_tile := None\<rparr>
                  else t"
  have "find ?P (map ?f (teams d)) = map_option ?f (find ?P (teams d))"
    by (rule find_map_same) simp
  moreover from assms obtain row where "find ?P (teams d) = Some row"
    by (auto simp: getTeamById_def split: option.splits)
  moreover from this have "?P row" by (auto dest: find_Some_set)
  ultimately show ?thesis using assms
    by (auto simp: getTeamById_def clearTeamProof_def)
qed

lemma proofRoute_fail:
  "fst (proofRoute U now proofId gameId au body d) = Inl e \<Longrightarrow>
     snd (proofRoute U now proofId gameId au body d) = d"
  by (simp add: proofRoute_def split: sum.splits option.splits if_splits)

lemma proofRoute_ok:
  assumes "parseProofBody U body = Inr url" "getGame d gameId = Some game"
    "g_status game = ''active''" "sessionExists d gameId au"
    "getTeamById d gameId (a_teamId au) = Some team" "tv_awaitingProof team"
    "tv_pendingTile team = Some t"
    "kind (getTileWithDefaults_proof d gameId t (g_board_size game)) = Task"
  shows "proofRoute U now proofId gameId au body d
         = (case insert_proof \<lparr>p_id = proofId, p_game_id = gameId, p_team_id = a_teamId au,
                                p_tile_index = t, p_rsn = a_rsn au, p_url = url,
                                p_created_at = now\<rparr> d of
              Inl e \<Rightarrow> (Inl e, d)
            | Inr d1 \<Rightarrow> (Inr (), clearTeamProof (a_teamId au) gameId d1))"
  using assms getTeamById_id[OF assms(5)] by (simp add: proofRoute_def split: sum.split)

lemma proofRoute_Inr:
  assumes "fst (proofRoute U now proofId gameId au body d) = Inr u"
  shows "\<exists>url game team t.
           parseProofBody U body = Inr url \<and> getGame d gameId = Some game
           \<and> g_status game = ''active'' \<and> sessionExists d gameId au
           \<and> getTeamById d gameId (a_teamId au) = Some team \<and> tv_awaitingProof team
           \<and> tv_pendingTile team = Some t
           \<and> kind (getTileWithDefaults_proof d gameId t (g_board_size game)) = Task"
  using assms by (simp add: proofRoute_def split: sum.splits option.splits if_splits)

lemma insert_proof_conflict:
  assumes "\<exists>p \<in> set (proofs d). p_game_id p = g \<and> p_team_id p = tid \<and> p_tile_index p = t"
  shows "insert_proof \<lparr>p_id = pid, p_game_id = g, p_team_id = tid, p_tile_index = t,
                        p_rsn = rsn, p_url = url, p_created_at = now\<rparr> d = Inl SqliteConstraint"
  using assms by (auto simp: insert_proof_def)

lemma insert_proof_fresh:
  assumes "\<forall>p \<in> set (proofs d). p_id p \<noteq> pid
             \<and> \<not> (p_game_id p = g \<and> p_team_id p = tid \<and> p_tile_index p = t)"
  shows "insert_proof \<lparr>p_id = pid, p_game_id = g, p_team_id = tid, p_tile_index = t,
                        p_rsn = rsn, p_url = url, p_created_at = now\<rparr> d
         = Inr (d\<lparr>proofs := proofs d @
                    [\<lparr>p_id = pid, p_game_id = g, p_team_id = tid, p_tile_index = t,
                      p_rsn = rsn, p_url = url, p_created_at = now\<rparr>]\<rparr>)"
  using assms by (auto simp: insert_proof_def)

lemma proofRoute_char:
  "proofRoute U now proofId gameId au body d
     = (case proofCheck U gameId au body d of
          Inl e \<Rightarrow> (Inl e, d)
        | Inr (url, t) \<Rightarrow>
            (case insert_proof \<lparr>p_id = proofId, p_game_id = gameId, p_team_id = a_teamId au,
                                  p_tile_index = t, p_rsn = a_rsn au, p_url = url,
                                  p_created_at = now\<rparr> d of
               Inl e \<Rightarrow> (Inl e, d)
             | Inr d1 \<Rightarrow> (Inr (), clearTeamProof (a_teamId au) gameId d1)))"
  by (auto simp: proofRoute_def proofCheck_def split: sum.split option.split
        dest: getTeamById_id)

lemma insert_proof_cases:
  "insert_proof \<lparr>p_id = pid, p_game_id = g, p_team_id = tid, p_tile_index = t,
                  p_rsn = rsn, p_url = url, p_created_at = now\<rparr> d
     = (if \<exists>p \<in> set (proofs d). p_id p = pid
              \<or> (p_game_id p = g \<and> p_team_id p = tid \<and> p_tile_index p = t)
        then Inl SqliteConstraint
        else Inr (d\<lparr>proofs := proofs d @
                     [\<lparr>p_id = pid, p_game_id = g, p_team_id = tid, p_tile_index = t,
                       p_rsn = rsn, p_url = url, p_created_at = now\<rparr>]\<rparr>))"
  by (simp add: insert_proof_def)

lemma proofRoute_time_free:
  "fst (proofRoute U now0 proofId gameId au body d) = fst (proofRoute U now proofId gameId au body d)
   \<and> teams (snd (proofRoute U now0 proofId gameId au body d))
       = teams (snd (proofRoute U now proofId gameId au body d))"
proof (cases "proofCheck U gameId au body d")
  case (Inl e)
  then show ?thesis by (simp add: proofRoute_char)
next
  case (Inr p)
  obtain url t where p: "p = (url, t)" by (cases p)
  show ?thesis
  proof (cases "\<exists>p \<in> set (proofs d). p_id p = proofId
              \<or> (p_game_id p = gameId \<and> p_team_id p = a_teamId au \<and> p_tile_index p = t)")
    case True
    then show ?thesis unfolding proofRoute_char Inr p insert_proof_cases by simp
  next
    case False
    then show ?thesis unfolding proofRoute_char Inr p insert_proof_cases
      by (simp add: clearTeamProof_def)
  qed
qed

lemma step_proofs: "set (proofs d) \<subseteq> set (proofs (step H V d r))"
proof (cases r)
  case (Roll now d6 gameId au)
  from rollRoute_cases[of now d6 gameId au d] show ?thesis
    unfolding Roll step.simps by (auto simp: updateTeamRoll_frame)
next
  case (SubmitProof now proofId gameId au body)
  from proofRoute_cases[of V now proofId gameId au body d] show ?thesis
    unfolding SubmitProof step.simps by (auto simp: clearTeamProof_frame)
qed (simp_all add: createGame_frame createTeam_frame registerRoute_frame saveBoard_frame
       lockBoard_def unlockBoard_def setBoardLock_frame)

lemma exProofRoute:
  "proofRoute exIsUrl now ''p'' ''g'' exAuth exProofBody (exDb (exTeam 1 1 (Some 1)) [])
     = (Inr (), exDb (exTeam 1 0 None) [exProof now])"
  by (simp add: proofRoute_def parseProofBody_def exProofBody_def exIsUrl_def getGame_def sessionExists_def
        getTeamById_def getTileWithDefaults_proof_def getTileRaw_proof_def tileRowOf_def
        insert_proof_def clearTeamProof_def exDb_def exGame_def exAuth_def exTeam_def exTiles_def
        exProof_def)

lemma run_exRearmed:
  "run (\<lambda>s. s) exIsUrl (exSetup @ [Roll 1002 D1 ''g'' exAuth, SubmitProof 3000 ''p'' ''g'' exAuth exProofBody,
                            Roll 4000 D3 ''g'' exAuth])
     = exDb (exTeam 1 1 (Some 1)) [exProof 3000]"
proof -
  have a: "run (\<lambda>s. s) exIsUrl (exSetup @ [Roll 1002 D1 ''g'' exAuth, SubmitProof 3000 ''p'' ''g'' exAuth exProofBody,
                            Roll 4000 D3 ''g'' exAuth])
           = step (\<lambda>s. s) exIsUrl (step (\<lambda>s. s) exIsUrl (run (\<lambda>s. s) exIsUrl (exSetup @ [Roll 1002 D1 ''g'' exAuth]))
                              (SubmitProof 3000 ''p'' ''g'' exAuth exProofBody))
               (Roll 4000 D3 ''g'' exAuth)"
    by (simp add: run_def)
  have b: "rollRoute 4000 D3 ''g'' exAuth (exDb (exTeam 1 0 None) [exProof 3000])
           = (Rolled \<lparr>rl_roll = 3, rl_from = 1, rl_to = 1, rl_jump = Some (4, 1),
                      rl_awaitingProof = True, rl_serverTime = 4000, rl_startsAt = None,
                      rl_endsAt = Some 5000\<rparr>,
              exDb (exTeam 1 1 (Some 1)) [exProof 3000])"
    by (simp add: rollRoute_def rollTimeGate_def msUntil_def getGame_def sessionExists_def
          getTeamById_def briefOf_def
          rollMove_def getTileWithDefaults_def getTileRaw_def tileRowOf_def updateTeamRoll_def
          exDb_def exGame_def exAuth_def exTeam_def exTiles_def Let_def)
  show ?thesis unfolding a run_exRoll1 by (simp add: exProofRoute b)
qed

text \<open>
  C7 (amended). A proof submission that fails leaves the whole database as it was, so the
  gating pair of the team and the proofs already recorded are untouched. One that
  succeeds appends the proof row for the pending tile and clears the gating pair; every
  further submission of that team on the resulting database fails, with
  "No proof expected" (or the schema error, for a body that the schema refuses). When a
  proof row for the team and its pending tile is already stored, which needs the team to
  be gated again on that tile, a submission cannot succeed, and once it has passed the
  checks of the route it fails with the violation of the unique constraint. No request
  removes or replaces a stored proof row.
\<close>

theorem proof_submission_outcomes:
  "(\<forall>e. fst (proofRoute U now proofId gameId au body d) = Inl e \<longrightarrow>
        snd (proofRoute U now proofId gameId au body d) = d)
   \<and> (fst (proofRoute U now proofId gameId au body d) = Inr () \<longrightarrow>
        (\<exists>team t url.
            getTeamById d gameId (a_teamId au) = Some team \<and> tv_awaitingProof team
            \<and> tv_pendingTile team = Some t \<and> parseProofBody U body = Inr url
            \<and> proofs (snd (proofRoute U now proofId gameId au body d))
                = proofs d @ [\<lparr>p_id = proofId, p_game_id = gameId, p_team_id = a_teamId au,
                                p_tile_index = t, p_rsn = a_rsn au, p_url = url,
                                p_created_at = now\<rparr>]
            \<and> getTeamById (snd (proofRoute U now proofId gameId au body d)) gameId (a_teamId au)
                = Some (team\<lparr>tv_awaitingProof := False, tv_pendingTile := None\<rparr>)
            \<and> (\<forall>now' proofId' body'.
                  proofRoute U now' proofId' gameId au body'
                      (snd (proofRoute U now proofId gameId au body d))
                    = (case parseProofBody U body' of
                         Inl e \<Rightarrow> (Inl e, snd (proofRoute U now proofId gameId au body d))
                       | Inr u \<Rightarrow> (Inl (Error ''No proof expected''),
                                   snd (proofRoute U now proofId gameId au body d))))))
   \<and> (\<forall>team t.
         getTeamById d gameId (a_teamId au) = Some team \<and> tv_pendingTile team = Some t
         \<and> (\<exists>p \<in> set (proofs d).
               p_game_id p = gameId \<and> p_team_id p = a_teamId au \<and> p_tile_index p = t)
         \<longrightarrow> (\<exists>e. proofRoute U now proofId gameId au body d = (Inl e, d))
             \<and> ((\<exists>url game.
                    parseProofBody U body = Inr url \<and> getGame d gameId = Some game
                    \<and> g_status game = ''active'' \<and> sessionExists d gameId au
                    \<and> tv_awaitingProof team
                    \<and> kind (getTileWithDefaults_proof d gameId t (g_board_size game)) = Task)
                 \<longrightarrow> proofRoute U now proofId gameId au body d = (Inl SqliteConstraint, d)))
   \<and> (\<forall>H V r. set (proofs d) \<subseteq> set (proofs (step H V d r)))"
proof -
  let ?res = "proofRoute U now proofId gameId au body d"
  have fail: "snd ?res = d" if "fst ?res = Inl e" for e
    using that by (rule proofRoute_fail)
  have succ: "\<exists>team t url.
            getTeamById d gameId (a_teamId au) = Some team \<and> tv_awaitingProof team
            \<and> tv_pendingTile team = Some t \<and> parseProofBody U body = Inr url
            \<and> proofs (snd ?res)
                = proofs d @ [\<lparr>p_id = proofId, p_game_id = gameId, p_team_id = a_teamId au,
                                p_tile_index = t, p_rsn = a_rsn au, p_url = url,
                                p_created_at = now\<rparr>]
            \<and> getTeamById (snd ?res) gameId (a_teamId au)
                = Some (team\<lparr>tv_awaitingProof := False, tv_pendingTile := None\<rparr>)
            \<and> (\<forall>now' proofId' body'.
                  proofRoute U now' proofId' gameId au body' (snd ?res)
                    = (case parseProofBody U body' of
                         Inl e \<Rightarrow> (Inl e, snd ?res)
                       | Inr u \<Rightarrow> (Inl (Error ''No proof expected''), snd ?res)))"
    if ok: "fst ?res = Inr ()"
  proof -
    from proofRoute_Inr[OF ok] obtain url game team t where
      pre: "parseProofBody U body = Inr url" "getGame d gameId = Some game"
        "g_status game = ''active''" "sessionExists d gameId au"
        "getTeamById d gameId (a_teamId au) = Some team" "tv_awaitingProof team"
        "tv_pendingTile team = Some t"
        "kind (getTileWithDefaults_proof d gameId t (g_board_size game)) = Task"
      by blast
    let ?row = "\<lparr>p_id = proofId, p_game_id = gameId, p_team_id = a_teamId au,
                  p_tile_index = t, p_rsn = a_rsn au, p_url = url, p_created_at = now\<rparr>"
    let ?d1 = "d\<lparr>proofs := proofs d @ [?row]\<rparr>"
    note r = proofRoute_ok[OF pre, of now proofId]
    have res: "?res = (Inr (), clearTeamProof (a_teamId au) gameId ?d1)"
    proof (cases "\<exists>p \<in> set (proofs d). p_id p = proofId
              \<or> (p_game_id p = gameId \<and> p_team_id p = a_teamId au \<and> p_tile_index p = t)")
      case True
      then have "insert_proof ?row d = Inl SqliteConstraint"
        unfolding insert_proof_cases by (rule if_P)
      then have "fst ?res = Inl SqliteConstraint" unfolding r by simp
      with ok show ?thesis by simp
    next
      case False
      then have "insert_proof ?row d = Inr ?d1"
        unfolding insert_proof_cases by (rule if_not_P)
      then show ?thesis unfolding r by simp
    qed
    have t1: "getTeamById ?d1 gameId (a_teamId au) = Some team"
      using pre(5) unfolding getTeamById_def by simp
    have v: "getTeamById (snd ?res) gameId (a_teamId au)
               = Some (team\<lparr>tv_awaitingProof := False, tv_pendingTile := None\<rparr>)"
      unfolding res snd_conv by (rule getTeamById_clearTeamProof[OF t1])
    have p: "proofs (snd ?res) = proofs d @ [?row]"
      unfolding res by (simp add: clearTeamProof_frame)
    have gg: "getGame (snd ?res) gameId = Some game"
      using pre(2) unfolding res getGame_def by (simp add: clearTeamProof_def)
    have ss: "sessionExists (snd ?res) gameId au"
      using pre(4) unfolding res sessionExists_def by (simp add: clearTeamProof_def)
    have chk: "proofCheck U gameId au body' (snd ?res)
                 = (case parseProofBody U body' of
                      Inl e \<Rightarrow> Inl e
                    | Inr u \<Rightarrow> Inl (Error ''No proof expected''))" for body'
      by (simp add: proofCheck_def gg pre(3) ss v split: sum.split)
    have again: "proofRoute U now' proofId' gameId au body' (snd ?res)
                   = (case parseProofBody U body' of
                        Inl e \<Rightarrow> (Inl e, snd ?res)
                      | Inr u \<Rightarrow> (Inl (Error ''No proof expected''), snd ?res))"
      for now' proofId' body'
    proof (cases "parseProofBody U body'")
      case (Inl e)
      show ?thesis
        unfolding proofRoute_char[of U now' proofId' gameId au body' "snd ?res"] chk Inl
        by simp
    next
      case (Inr u)
      show ?thesis
        unfolding proofRoute_char[of U now' proofId' gameId au body' "snd ?res"] chk Inr
        by simp
    qed
    have all: "\<forall>now' proofId' body'.
                 proofRoute U now' proofId' gameId au body' (snd ?res)
                   = (case parseProofBody U body' of
                        Inl e \<Rightarrow> (Inl e, snd ?res)
                      | Inr u \<Rightarrow> (Inl (Error ''No proof expected''), snd ?res))"
      using again by (intro allI)
    show ?thesis
      by (rule exI[of _ team], rule exI[of _ t], rule exI[of _ url])
         (intro conjI pre(5) pre(6) pre(7) pre(1) p v all)
  qed
  have dup: "(\<exists>e. ?res = (Inl e, d))
             \<and> ((\<exists>url game.
                    parseProofBody U body = Inr url \<and> getGame d gameId = Some game
                    \<and> g_status game = ''active'' \<and> sessionExists d gameId au
                    \<and> tv_awaitingProof team
                    \<and> kind (getTileWithDefaults_proof d gameId t (g_board_size game)) = Task)
                 \<longrightarrow> ?res = (Inl SqliteConstraint, d))"
    if team: "getTeamById d gameId (a_teamId au) = Some team"
      and pend: "tv_pendingTile team = Some t"
      and ex: "\<exists>p \<in> set (proofs d).
                 p_game_id p = gameId \<and> p_team_id p = a_teamId au \<and> p_tile_index p = t"
    for team t
  proof -
    have c: "insert_proof \<lparr>p_id = proofId, p_game_id = gameId, p_team_id = a_teamId au,
                            p_tile_index = t, p_rsn = a_rsn au, p_url = url,
                            p_created_at = now\<rparr> d = Inl SqliteConstraint" for url
      by (rule insert_proof_conflict[OF ex])
    have a: "\<exists>e. ?res = (Inl e, d)"
    proof (cases "proofCheck U gameId au body d")
      case (Inl e)
      then show ?thesis by (simp add: proofRoute_char)
    next
      case (Inr p)
      obtain url t' where p: "p = (url, t')" by (cases p)
      from Inr p team pend have "t' = t"
        by (simp add: proofCheck_def split: sum.splits option.splits if_splits)
      with Inr p c[of url] show ?thesis by (simp add: proofRoute_char)
    qed
    have b: "?res = (Inl SqliteConstraint, d)"
      if "\<exists>url game.
                    parseProofBody U body = Inr url \<and> getGame d gameId = Some game
                    \<and> g_status game = ''active'' \<and> sessionExists d gameId au
                    \<and> tv_awaitingProof team
                    \<and> kind (getTileWithDefaults_proof d gameId t (g_board_size game)) = Task"
    proof -
      from that obtain url game where
        pre: "parseProofBody U body = Inr url" "getGame d gameId = Some game"
          "g_status game = ''active''" "sessionExists d gameId au" "tv_awaitingProof team"
          "kind (getTileWithDefaults_proof d gameId t (g_board_size game)) = Task"
        by blast
      from proofRoute_ok[OF pre(1,2,3,4) team pre(5) pend pre(6), of now proofId] c[of url]
      show ?thesis by simp
    qed
    from b have b': "(\<exists>url game.
                    parseProofBody U body = Inr url \<and> getGame d gameId = Some game
                    \<and> g_status game = ''active'' \<and> sessionExists d gameId au
                    \<and> tv_awaitingProof team
                    \<and> kind (getTileWithDefaults_proof d gameId t (g_board_size game)) = Task)
                 \<longrightarrow> ?res = (Inl SqliteConstraint, d)"
      by (rule impI)
    from a b' show ?thesis by (rule conjI)
  qed
  have c1: "\<forall>e. fst ?res = Inl e \<longrightarrow> snd ?res = d"
    using fail by (intro allI impI)
  have c2: "fst ?res = Inr () \<longrightarrow>
        (\<exists>team t url.
            getTeamById d gameId (a_teamId au) = Some team \<and> tv_awaitingProof team
            \<and> tv_pendingTile team = Some t \<and> parseProofBody U body = Inr url
            \<and> proofs (snd ?res)
                = proofs d @ [\<lparr>p_id = proofId, p_game_id = gameId, p_team_id = a_teamId au,
                                p_tile_index = t, p_rsn = a_rsn au, p_url = url,
                                p_created_at = now\<rparr>]
            \<and> getTeamById (snd ?res) gameId (a_teamId au)
                = Some (team\<lparr>tv_awaitingProof := False, tv_pendingTile := None\<rparr>)
            \<and> (\<forall>now' proofId' body'.
                  proofRoute U now' proofId' gameId au body' (snd ?res)
                    = (case parseProofBody U body' of
                         Inl e \<Rightarrow> (Inl e, snd ?res)
                       | Inr u \<Rightarrow> (Inl (Error ''No proof expected''), snd ?res))))"
    using succ by (intro impI)
  have c3: "\<forall>team t.
         getTeamById d gameId (a_teamId au) = Some team \<and> tv_pendingTile team = Some t
         \<and> (\<exists>p \<in> set (proofs d).
               p_game_id p = gameId \<and> p_team_id p = a_teamId au \<and> p_tile_index p = t)
         \<longrightarrow> (\<exists>e. ?res = (Inl e, d))
             \<and> ((\<exists>url game.
                    parseProofBody U body = Inr url \<and> getGame d gameId = Some game
                    \<and> g_status game = ''active'' \<and> sessionExists d gameId au
                    \<and> tv_awaitingProof team
                    \<and> kind (getTileWithDefaults_proof d gameId t (g_board_size game)) = Task)
                 \<longrightarrow> ?res = (Inl SqliteConstraint, d))"
  proof (intro allI impI)
    fix team t
    assume h: "getTeamById d gameId (a_teamId au) = Some team \<and> tv_pendingTile team = Some t
         \<and> (\<exists>p \<in> set (proofs d).
               p_game_id p = gameId \<and> p_team_id p = a_teamId au \<and> p_tile_index p = t)"
    from h have h1: "getTeamById d gameId (a_teamId au) = Some team" by (rule conjunct1)
    from h have h2: "tv_pendingTile team = Some t" by (elim conjE)
    from h have h3: "\<exists>p \<in> set (proofs d).
               p_game_id p = gameId \<and> p_team_id p = a_teamId au \<and> p_tile_index p = t"
      by (elim conjE)
    show "(\<exists>e. ?res = (Inl e, d))
             \<and> ((\<exists>url game.
                    parseProofBody U body = Inr url \<and> getGame d gameId = Some game
                    \<and> g_status game = ''active'' \<and> sessionExists d gameId au
                    \<and> tv_awaitingProof team
                    \<and> kind (getTileWithDefaults_proof d gameId t (g_board_size game)) = Task)
                 \<longrightarrow> ?res = (Inl SqliteConstraint, d))"
      by (rule dup[OF h1 h2 h3])
  qed
  have c4: "\<forall>H V r. set (proofs d) \<subseteq> set (proofs (step H V d r))"
    by (intro allI) (rule step_proofs)
  show ?thesis by (rule conjI[OF c1 conjI[OF c2 conjI[OF c3 c4]]])
qed

theorem proof_submission_outcomes_witness:
  "proofRoute exIsUrl 3000 ''p'' ''g'' exAuth exProofBody
       (run (\<lambda>s. s) exIsUrl (exSetup @ [Roll 1002 D1 ''g'' exAuth]))
     = (Inr (), exDb (exTeam 1 0 None) [exProof 3000])
   \<and> proofRoute exIsUrl 3001 ''q'' ''g'' exAuth exProofBody (exDb (exTeam 1 0 None) [exProof 3000])
     = (Inl (Error ''No proof expected''), exDb (exTeam 1 0 None) [exProof 3000])
   \<and> run (\<lambda>s. s) exIsUrl (exSetup @ [Roll 1002 D1 ''g'' exAuth,
                              SubmitProof 3000 ''p'' ''g'' exAuth exProofBody,
                              Roll 4000 D3 ''g'' exAuth])
     = exDb (exTeam 1 1 (Some 1)) [exProof 3000]
   \<and> proofRoute exIsUrl 4500 ''q'' ''g'' exAuth exProofBody (exDb (exTeam 1 1 (Some 1)) [exProof 3000])
     = (Inl SqliteConstraint, exDb (exTeam 1 1 (Some 1)) [exProof 3000])"
proof -
  let ?d2 = "exDb (exTeam 1 1 (Some 1)) [exProof 3000]"
  let ?team = "\<lparr>tv_id = ''t'', tv_name = ''red'', tv_position = 1, tv_awaitingProof = True,
                tv_pendingTile = Some 1\<rparr>"
  have a: "proofRoute exIsUrl 3000 ''p'' ''g'' exAuth exProofBody
             (run (\<lambda>s. s) exIsUrl (exSetup @ [Roll 1002 D1 ''g'' exAuth]))
           = (Inr (), exDb (exTeam 1 0 None) [exProof 3000])"
    unfolding run_exRoll1 by (rule exProofRoute)
  have ok: "fst (proofRoute exIsUrl 3000 ''p'' ''g'' exAuth exProofBody
                  (run (\<lambda>s. s) exIsUrl (exSetup @ [Roll 1002 D1 ''g'' exAuth]))) = Inr ()"
    unfolding a by simp
  have pb: "parseProofBody exIsUrl exProofBody = Inr exUrl"
    by (simp add: parseProofBody_def exProofBody_def exIsUrl_def)
  from proof_submission_outcomes[of exIsUrl 3000 "''p''" "''g''" exAuth exProofBody
         "run (\<lambda>s. s) exIsUrl (exSetup @ [Roll 1002 D1 ''g'' exAuth])"] ok
  have "\<forall>now' proofId' body'.
          proofRoute exIsUrl now' proofId' ''g'' exAuth body'
              (snd (proofRoute exIsUrl 3000 ''p'' ''g'' exAuth exProofBody
                      (run (\<lambda>s. s) exIsUrl (exSetup @ [Roll 1002 D1 ''g'' exAuth]))))
            = (case parseProofBody exIsUrl body' of
                 Inl e \<Rightarrow> (Inl e, snd (proofRoute exIsUrl 3000 ''p'' ''g'' exAuth exProofBody
                                      (run (\<lambda>s. s) exIsUrl (exSetup @ [Roll 1002 D1 ''g'' exAuth]))))
               | Inr u \<Rightarrow> (Inl (Error ''No proof expected''),
                           snd (proofRoute exIsUrl 3000 ''p'' ''g'' exAuth exProofBody
                                  (run (\<lambda>s. s) exIsUrl (exSetup @ [Roll 1002 D1 ''g'' exAuth])))))"
    by blast
  then have "proofRoute exIsUrl 3001 ''q'' ''g'' exAuth exProofBody
              (snd (proofRoute exIsUrl 3000 ''p'' ''g'' exAuth exProofBody
                      (run (\<lambda>s. s) exIsUrl (exSetup @ [Roll 1002 D1 ''g'' exAuth]))))
            = (case parseProofBody exIsUrl exProofBody of
                 Inl e \<Rightarrow> (Inl e, snd (proofRoute exIsUrl 3000 ''p'' ''g'' exAuth exProofBody
                                      (run (\<lambda>s. s) exIsUrl (exSetup @ [Roll 1002 D1 ''g'' exAuth]))))
               | Inr u \<Rightarrow> (Inl (Error ''No proof expected''),
                           snd (proofRoute exIsUrl 3000 ''p'' ''g'' exAuth exProofBody
                                  (run (\<lambda>s. s) exIsUrl (exSetup @ [Roll 1002 D1 ''g'' exAuth])))))"
    by (elim allE)
  then have b: "proofRoute exIsUrl 3001 ''q'' ''g'' exAuth exProofBody (exDb (exTeam 1 0 None) [exProof 3000])
           = (Inl (Error ''No proof expected''), exDb (exTeam 1 0 None) [exProof 3000])"
    unfolding a pb by simp
  have t: "getTeamById ?d2 ''g'' (a_teamId exAuth) = Some ?team"
    by (simp add: exTeam_view exAuth_simps)
  have pend: "tv_pendingTile ?team = Some 1" by simp
  have ex: "\<exists>p \<in> set (proofs ?d2).
              p_game_id p = ''g'' \<and> p_team_id p = a_teamId exAuth \<and> p_tile_index p = 1"
    by (simp add: exDb_simps exProof_def exAuth_simps)
  have pre: "\<exists>url game.
               parseProofBody exIsUrl exProofBody = Inr url \<and> getGame ?d2 ''g'' = Some game
               \<and> g_status game = ''active'' \<and> sessionExists ?d2 ''g'' exAuth
               \<and> tv_awaitingProof ?team
               \<and> kind (getTileWithDefaults_proof ?d2 ''g'' 1 (g_board_size game)) = Task"
    by (simp add: parseProofBody_def exProofBody_def exIsUrl_def exDb_simps exGame_simps
          getTileWithDefaults_proof_def getTileRaw_proof_def exTiles_rows)
  from proof_submission_outcomes[of exIsUrl 4500 "''q''" "''g''" exAuth exProofBody ?d2]
  have "\<forall>team t.
         getTeamById ?d2 ''g'' (a_teamId exAuth) = Some team \<and> tv_pendingTile team = Some t
         \<and> (\<exists>p \<in> set (proofs ?d2).
               p_game_id p = ''g'' \<and> p_team_id p = a_teamId exAuth \<and> p_tile_index p = t)
         \<longrightarrow> (\<exists>e. proofRoute exIsUrl 4500 ''q'' ''g'' exAuth exProofBody ?d2 = (Inl e, ?d2))
             \<and> ((\<exists>url game.
                    parseProofBody exIsUrl exProofBody = Inr url \<and> getGame ?d2 ''g'' = Some game
                    \<and> g_status game = ''active'' \<and> sessionExists ?d2 ''g'' exAuth
                    \<and> tv_awaitingProof team
                    \<and> kind (getTileWithDefaults_proof ?d2 ''g'' t (g_board_size game)) = Task)
                 \<longrightarrow> proofRoute exIsUrl 4500 ''q'' ''g'' exAuth exProofBody ?d2
                       = (Inl SqliteConstraint, ?d2))"
    by (elim conjE)
  then have "(\<exists>url game.
                    parseProofBody exIsUrl exProofBody = Inr url \<and> getGame ?d2 ''g'' = Some game
                    \<and> g_status game = ''active'' \<and> sessionExists ?d2 ''g'' exAuth
                    \<and> tv_awaitingProof ?team
                    \<and> kind (getTileWithDefaults_proof ?d2 ''g'' 1 (g_board_size game)) = Task)
                 \<longrightarrow> proofRoute exIsUrl 4500 ''q'' ''g'' exAuth exProofBody ?d2
                       = (Inl SqliteConstraint, ?d2)"
    using t pend ex by blast
  with pre have c: "proofRoute exIsUrl 4500 ''q'' ''g'' exAuth exProofBody ?d2 = (Inl SqliteConstraint, ?d2)"
    by (rule rev_mp)
  from a b run_exRearmed c show ?thesis by (intro conjI)
qed

text \<open>
  C7 as stated fails right after an accepted proof: the second submission of the team is
  refused with "No proof expected", before the INSERT, and not by the unique constraint.
\<close>

theorem second_submission_conflict_counterexample:
  "fst (proofRoute exIsUrl 3000 ''p'' ''g'' exAuth exProofBody
          (run (\<lambda>s. s) exIsUrl (exSetup @ [Roll 1002 D1 ''g'' exAuth]))) = Inr ()
   \<and> proofs (snd (proofRoute exIsUrl 3000 ''p'' ''g'' exAuth exProofBody
                     (run (\<lambda>s. s) exIsUrl (exSetup @ [Roll 1002 D1 ''g'' exAuth]))))
       = [exProof 3000]
   \<and> fst (proofRoute exIsUrl 3001 ''q'' ''g'' exAuth exProofBody
            (snd (proofRoute exIsUrl 3000 ''p'' ''g'' exAuth exProofBody
                    (run (\<lambda>s. s) exIsUrl (exSetup @ [Roll 1002 D1 ''g'' exAuth])))))
       = Inl (Error ''No proof expected'')
   \<and> fst (proofRoute exIsUrl 3001 ''q'' ''g'' exAuth exProofBody
            (snd (proofRoute exIsUrl 3000 ''p'' ''g'' exAuth exProofBody
                    (run (\<lambda>s. s) exIsUrl (exSetup @ [Roll 1002 D1 ''g'' exAuth])))))
       \<noteq> Inl SqliteConstraint"
proof -
  have a: "proofRoute exIsUrl 3000 ''p'' ''g'' exAuth exProofBody
             (run (\<lambda>s. s) exIsUrl (exSetup @ [Roll 1002 D1 ''g'' exAuth]))
           = (Inr (), exDb (exTeam 1 0 None) [exProof 3000])"
    unfolding run_exRoll1 by (rule exProofRoute)
  have b: "proofRoute exIsUrl 3001 ''q'' ''g'' exAuth exProofBody
             (exDb (exTeam 1 0 None) [exProof 3000])
           = (Inl (Error ''No proof expected''), exDb (exTeam 1 0 None) [exProof 3000])"
    by (simp add: proofRoute_def parseProofBody_def exProofBody_def exIsUrl_def exDb_simps
          exGame_simps exAuth_simps exTeam_view)
  show ?thesis unfolding a snd_conv b by (simp add: exDb_simps)
qed

text \<open>
  C9. The proof route does not read the time window of the game: its outcome and the team
  rows it leaves are the same at every clock value. For a game that is active and whose
  end time has passed, a valid submission of a gated team whose pending tile resolves to
  kind \<open>task\<close> succeeds, the submission being valid when its body passes the schema and
  no proof row is stored yet for that tile: the proof row is appended and the gating pair
  is cleared.
\<close>

theorem proof_ignores_time_window:
  assumes game: "getGame d gameId = Some game" "g_status game = ''active''"
    and ended: "g_ends_at game = Some e" "e \<le> now"
    and sess: "sessionExists d gameId au"
    and team: "getTeamById d gameId (a_teamId au) = Some team" "tv_awaitingProof team"
      "tv_pendingTile team = Some t"
    and tile: "kind (getTileWithDefaults_proof d gameId t (g_board_size game)) = Task"
    and body: "parseProofBody U body = Inr url"
    and fresh: "\<forall>p \<in> set (proofs d). p_id p \<noteq> proofId
                  \<and> \<not> (p_game_id p = gameId \<and> p_team_id p = a_teamId au \<and> p_tile_index p = t)"
  shows "fst (proofRoute U now proofId gameId au body d) = Inr ()
         \<and> proofs (snd (proofRoute U now proofId gameId au body d))
             = proofs d @ [\<lparr>p_id = proofId, p_game_id = gameId, p_team_id = a_teamId au,
                             p_tile_index = t, p_rsn = a_rsn au, p_url = url,
                             p_created_at = now\<rparr>]
         \<and> getTeamById (snd (proofRoute U now proofId gameId au body d)) gameId (a_teamId au)
             = Some (team\<lparr>tv_awaitingProof := False, tv_pendingTile := None\<rparr>)
         \<and> (\<forall>now0. fst (proofRoute U now0 proofId gameId au body d)
                       = fst (proofRoute U now proofId gameId au body d)
                     \<and> teams (snd (proofRoute U now0 proofId gameId au body d))
                       = teams (snd (proofRoute U now proofId gameId au body d)))"
proof -
  let ?row = "\<lparr>p_id = proofId, p_game_id = gameId, p_team_id = a_teamId au,
                p_tile_index = t, p_rsn = a_rsn au, p_url = url, p_created_at = now\<rparr>"
  let ?d1 = "d\<lparr>proofs := proofs d @ [?row]\<rparr>"
  have ins: "insert_proof ?row d = Inr ?d1"
    by (rule insert_proof_fresh[OF fresh])
  have res: "proofRoute U now proofId gameId au body d
             = (Inr (), clearTeamProof (a_teamId au) gameId ?d1)"
    unfolding proofRoute_ok[OF body game sess team tile] ins by simp
  have t1: "getTeamById ?d1 gameId (a_teamId au) = Some team"
    using team(1) unfolding getTeamById_def by simp
  have a: "fst (proofRoute U now proofId gameId au body d) = Inr ()"
    unfolding res by simp
  have b: "proofs (snd (proofRoute U now proofId gameId au body d)) = proofs d @ [?row]"
    unfolding res by (simp add: clearTeamProof_frame)
  have c: "getTeamById (snd (proofRoute U now proofId gameId au body d)) gameId (a_teamId au)
             = Some (team\<lparr>tv_awaitingProof := False, tv_pendingTile := None\<rparr>)"
    unfolding res snd_conv by (rule getTeamById_clearTeamProof[OF t1])
  have d: "\<forall>now0. fst (proofRoute U now0 proofId gameId au body d)
                       = fst (proofRoute U now proofId gameId au body d)
                     \<and> teams (snd (proofRoute U now0 proofId gameId au body d))
                       = teams (snd (proofRoute U now proofId gameId au body d))"
    by (intro allI) (rule proofRoute_time_free)
  show ?thesis by (rule conjI[OF a conjI[OF b conjI[OF c d]]])
qed

theorem proof_ignores_time_window_witness:
  "getGame (run (\<lambda>s. s) exIsUrl (exSetup @ [Roll 1002 D1 ''g'' exAuth])) ''g'' = Some exGame
   \<and> g_ends_at exGame = Some 5000
   \<and> proofRoute exIsUrl 6000 ''p'' ''g'' exAuth exProofBody
       (run (\<lambda>s. s) exIsUrl (exSetup @ [Roll 1002 D1 ''g'' exAuth]))
       = (Inr (), exDb (exTeam 1 0 None) [exProof 6000])
   \<and> fst (proofRoute exIsUrl 4000 ''p'' ''g'' exAuth exProofBody
            (run (\<lambda>s. s) exIsUrl (exSetup @ [Roll 1002 D1 ''g'' exAuth]))) = Inr ()
   \<and> reason (fst (rollRoute 6000 D1 ''g'' exAuth (exDb (exTeam 1 0 None) [exProof 6000])))
       = ''ended''"
proof -
  let ?d = "run (\<lambda>s. s) exIsUrl (exSetup @ [Roll 1002 D1 ''g'' exAuth])"
  let ?team = "\<lparr>tv_id = ''t'', tv_name = ''red'', tv_position = 1, tv_awaitingProof = True,
                tv_pendingTile = Some 1\<rparr>"
  have g: "getGame ?d ''g'' = Some exGame" by (simp add: run_exRoll1 exDb_simps)
  have st: "g_status exGame = ''active''" by (simp add: exGame_simps)
  have en: "g_ends_at exGame = Some 5000" by (simp add: exGame_simps)
  have le: "(5000::int) \<le> 6000" by simp
  have se: "sessionExists ?d ''g'' exAuth" by (simp add: run_exRoll1 exDb_simps)
  have t: "getTeamById ?d ''g'' (a_teamId exAuth) = Some ?team"
    by (simp add: run_exRoll1 exTeam_view exAuth_simps)
  have aw: "tv_awaitingProof ?team" by simp
  have pe: "tv_pendingTile ?team = Some 1" by simp
  have ti: "kind (getTileWithDefaults_proof ?d ''g'' 1 (g_board_size exGame)) = Task"
    by (simp add: run_exRoll1 getTileWithDefaults_proof_def getTileRaw_proof_def exTiles_rows
          exGame_simps)
  have bo: "parseProofBody exIsUrl exProofBody = Inr exUrl"
    by (simp add: parseProofBody_def exProofBody_def exIsUrl_def)
  have fr: "\<forall>p \<in> set (proofs ?d). p_id p \<noteq> ''p''
              \<and> \<not> (p_game_id p = ''g'' \<and> p_team_id p = a_teamId exAuth \<and> p_tile_index p = 1)"
    by (simp add: run_exRoll1 exDb_simps)
  note w = proof_ignores_time_window[OF g st en le se t aw pe ti bo fr]
  from w have now6: "fst (proofRoute exIsUrl 6000 ''p'' ''g'' exAuth exProofBody ?d) = Inr ()"
    by (rule conjunct1)
  from w have "fst (proofRoute exIsUrl 4000 ''p'' ''g'' exAuth exProofBody ?d)
                 = fst (proofRoute exIsUrl 6000 ''p'' ''g'' exAuth exProofBody ?d)"
    by blast
  with now6 have early: "fst (proofRoute exIsUrl 4000 ''p'' ''g'' exAuth exProofBody ?d) = Inr ()"
    by (simp only:)
  have full: "proofRoute exIsUrl 6000 ''p'' ''g'' exAuth exProofBody ?d
                = (Inr (), exDb (exTeam 1 0 None) [exProof 6000])"
    unfolding run_exRoll1 by (rule exProofRoute)
  have roll: "reason (fst (rollRoute 6000 D1 ''g'' exAuth (exDb (exTeam 1 0 None) [exProof 6000])))
                = ''ended''"
    by (simp add: rollRoute_def rollTimeGate_def msUntil_def exDb_simps exGame_simps
          exTeam_view exAuth_simps)
  from g en full early roll show ?thesis by (intro conjI)
qed


end
